theory Spec2Isabelle
  imports Complex_Main "HOL-Library.Char_ord" "HOL-Library.List_Lexorder" "HOL-Library.Product_Lexorder"
begin

section \<open>Data model (src/models/Recipe.js)\<close>

text \<open>
  An object id is written as 24 hexadecimal digits; \<^verbatim>\<open>toString()\<close> gives them in lower
  case, and that text is what an \<open>ObjectId\<close> holds here, so that two ids are equal exactly
  when their texts are (the source compares ids through \<^verbatim>\<open>toString()\<close>). A route
  parameter is a text. Where the store library casts a text to an id (\<^verbatim>\<open>findById\<close>,
  \<^verbatim>\<open>findByIdAndUpdate\<close>, \<^verbatim>\<open>findByIdAndDelete\<close>, \<^verbatim>\<open>push\<close> on an array of ids) it accepts
  the 24 digits in either letter case and fails on any other text.
  Dates are milliseconds. JavaScript numbers are modelled exactly: integers as \<open>int\<close>,
  the rounded average as \<open>rat\<close>; floating-point rounding error is outside the model.
  String lengths count the characters of the model's \<open>string\<close>.
\<close>

datatype oid = ObjectId string

fun toString :: "oid \<Rightarrow> string" where
  "toString (ObjectId digits) = digits"

definition is_hex :: "char \<Rightarrow> bool" where
  "is_hex c = (c \<in> set ''0123456789abcdefABCDEF'')"

definition lower_hex :: "char \<Rightarrow> char" where
  "lower_hex c =
     (if c = CHR ''A'' then CHR ''a'' else if c = CHR ''B'' then CHR ''b''
      else if c = CHR ''C'' then CHR ''c'' else if c = CHR ''D'' then CHR ''d''
      else if c = CHR ''E'' then CHR ''e'' else if c = CHR ''F'' then CHR ''f'' else c)"

definition castObjectId :: "string \<Rightarrow> oid option" where
  "castObjectId t =
     (if length t = 24 \<and> list_all is_hex t then Some (ObjectId (map lower_hex t)) else None)"

type_synonym date = int

record ingredient =
  name :: string
  quantity :: string
  unit :: string

text \<open>
  The fields of an array element are strings, where the empty string also stands for a
  field that is not there (\<^verbatim>\<open>required\<close> rejects both), and a step number that may be
  missing.
\<close>

record instruction_step =
  stepNumber :: "int option"
  instruction :: string

record cooking_time =
  prep :: int
  cook :: int

record rating_entry =
  user :: oid
  rating :: int
  comment :: string

record nutritional_info =
  protein :: "rat option"
  carbs :: "rat option"
  fat :: "rat option"
  fiber :: "rat option"
  sugar :: "rat option"

record recipe =
  recipe_id :: oid
  title :: string
  description :: string
  ingredients :: "ingredient list"
  instructions :: "instruction_step list"
  cookingTime :: cooking_time
  servings :: int
  difficulty :: string
  cuisine :: string
  dietType :: string
  calories :: "int option"
  image :: string
  author :: oid
  ratings :: "rating_entry list"
  averageRating :: rat
  totalRatings :: nat
  isPublic :: bool
  tags :: "string list"
  nutritionalInfo :: nutritional_info
  createdAt :: date
  updatedAt :: date

text \<open>
  Modelled from the spec: the User model (models/User.js) is not among the sources. The
  spec gives a user a \<open>favoriteRecipes\<close> sequence of recipe references; nothing else of
  a user is read by the handlers embedded here, and saving a user is taken to succeed.
\<close>

record user_doc =
  user_id :: oid
  favoriteRecipes :: "oid list"

record store =
  Recipe_docs :: "recipe list"
  User_docs :: "user_doc list"

text \<open>
  Every handler wraps its body in \<^verbatim>\<open>try/catch\<close>; an early \<^verbatim>\<open>return res.status(..)\<close>
  and a caught exception are both \<open>Inl\<close> of an error here, with the HTTP status the
  handler sends. \<open>Conflict\<close> is the spec's name of the "already in favorites" reply.
\<close>

datatype error =
    NotFound
  | Forbidden
  | Conflict
  | ValidationError
  | SyntaxError
  | TypeError
  | CastError
  | MongoError

fun http_status :: "error \<Rightarrow> nat" where
  "http_status NotFound = 404"
| "http_status Forbidden = 403"
| "http_status Conflict = 400"
| "http_status ValidationError = 500"
| "http_status SyntaxError = 500"
| "http_status TypeError = 500"
| "http_status CastError = 500"
| "http_status MongoError = 500"

subsection \<open>Store primitives\<close>

definition findById :: "('d \<Rightarrow> oid) \<Rightarrow> 'd list \<Rightarrow> oid \<Rightarrow> 'd option" where
  "findById key docs i = List.find (\<lambda>d. key d = i) docs"

text \<open>
  A write by id (\<^verbatim>\<open>save\<close> of a loaded document, \<^verbatim>\<open>findByIdAndUpdate\<close>,
  \<^verbatim>\<open>findByIdAndDelete\<close>) touches the first document with that id.
\<close>

fun replaceById :: "('d \<Rightarrow> oid) \<Rightarrow> 'd list \<Rightarrow> 'd \<Rightarrow> 'd list" where
  "replaceById key [] d = []"
| "replaceById key (x # xs) d = (if key x = key d then d # xs else x # replaceById key xs d)"

fun deleteById :: "('d \<Rightarrow> oid) \<Rightarrow> 'd list \<Rightarrow> oid \<Rightarrow> 'd list" where
  "deleteById key [] i = []"
| "deleteById key (x # xs) i = (if key x = i then xs else x # deleteById key xs i)"

subsection \<open>Rating aggregate and the virtual \<open>totalTime\<close>\<close>

text \<open>\<^verbatim>\<open>Math.round\<close> rounds to the nearest integer, halves upwards.\<close>

definition Math_round :: "rat \<Rightarrow> int" where
  "Math_round x = \<lfloor>x + 1 / 2\<rfloor>"

definition calculateAverageRating :: "recipe \<Rightarrow> recipe" where
  "calculateAverageRating this =
     (if length (ratings this) = 0
      then this\<lparr>averageRating := 0, totalRatings := 0\<rparr>
      else
        let total = foldl (\<lambda>sum r. sum + rating r) 0 (ratings this)
        in this\<lparr>averageRating :=
                    of_int (Math_round ((of_int total / of_nat (length (ratings this))) * 10)) / 10,
                  totalRatings := length (ratings this)\<rparr>)"

definition totalTime :: "recipe \<Rightarrow> int" where
  "totalTime this = prep (cookingTime this) + cook (cookingTime this)"

text \<open>
  \<^verbatim>\<open>toJSON\<close> is configured with \<^verbatim>\<open>virtuals: true\<close>: the serialised document carries
  the stored fields and, beside them, the value of the virtual.
\<close>

record recipe_view = recipe +
  view_totalTime :: int

definition toJSON :: "recipe \<Rightarrow> recipe_view" where
  "toJSON doc = recipe.extend doc (recipe_view.fields (totalTime doc))"

subsection \<open>Schema validators\<close>

text \<open>
  One predicate per schema path, from the \<^verbatim>\<open>required\<close>, \<^verbatim>\<open>min\<close>, \<^verbatim>\<open>max\<close>,
  \<^verbatim>\<open>maxlength\<close> and \<^verbatim>\<open>enum\<close> options of the schema. Mongoose's \<^verbatim>\<open>required\<close>
  on a String path rejects the empty string as well as a missing value.
\<close>

definition valid_title :: "string \<Rightarrow> bool" where
  "valid_title s = (s \<noteq> [] \<and> length s \<le> 100)"

definition valid_description :: "string \<Rightarrow> bool" where
  "valid_description s = (s \<noteq> [] \<and> length s \<le> 500)"

definition valid_ingredients :: "ingredient list \<Rightarrow> bool" where
  "valid_ingredients xs = list_all (\<lambda>i. name i \<noteq> [] \<and> quantity i \<noteq> [] \<and> unit i \<noteq> []) xs"

definition valid_instructions :: "instruction_step list \<Rightarrow> bool" where
  "valid_instructions xs = list_all (\<lambda>i. stepNumber i \<noteq> None \<and> instruction i \<noteq> []) xs"

definition valid_cookingTime :: "cooking_time \<Rightarrow> bool" where
  "valid_cookingTime c = (1 \<le> prep c \<and> 1 \<le> cook c)"

definition valid_servings :: "int \<Rightarrow> bool" where
  "valid_servings n = (1 \<le> n)"

definition valid_difficulty :: "string \<Rightarrow> bool" where
  "valid_difficulty s = (s \<in> set [''Easy'', ''Medium'', ''Hard''])"

definition valid_cuisine :: "string \<Rightarrow> bool" where
  "valid_cuisine s = (s \<noteq> [] \<and> length s \<le> 50)"

definition valid_dietType :: "string \<Rightarrow> bool" where
  "valid_dietType s =
     (s \<in> set [''Vegetarian'', ''Vegan'', ''Gluten-Free'', ''Keto'', ''Paleo'', ''Low-Carb'',
               ''High-Protein'', ''Regular''])"

definition valid_calories :: "int option \<Rightarrow> bool" where
  "valid_calories c = (case c of None \<Rightarrow> True | Some n \<Rightarrow> 1 \<le> n)"

definition valid_image :: "string \<Rightarrow> bool" where
  "valid_image s = (s \<noteq> [])"

definition valid_ratings :: "rating_entry list \<Rightarrow> bool" where
  "valid_ratings rs = list_all (\<lambda>r. 1 \<le> rating r \<and> rating r \<le> 5 \<and> length (comment r) \<le> 200) rs"

definition valid_averageRating :: "rat \<Rightarrow> bool" where
  "valid_averageRating a = (0 \<le> a \<and> a \<le> 5)"

definition validate :: "recipe \<Rightarrow> bool" where
  "validate doc =
     (valid_title (title doc) \<and> valid_description (description doc) \<and>
      valid_ingredients (ingredients doc) \<and> valid_instructions (instructions doc) \<and>
      valid_cookingTime (cookingTime doc) \<and> valid_servings (servings doc) \<and>
      valid_difficulty (difficulty doc) \<and> valid_cuisine (cuisine doc) \<and>
      valid_dietType (dietType doc) \<and> valid_calories (calories doc) \<and>
      valid_image (image doc) \<and> valid_ratings (ratings doc) \<and>
      valid_averageRating (averageRating doc))"

text \<open>The \<^verbatim>\<open>trim: true\<close> setter of \<open>title\<close>, \<open>cuisine\<close> and each tag.\<close>

definition is_space :: "char \<Rightarrow> bool" where
  "is_space c = (c \<in> set [CHR '' '', CHR 0x09, CHR 0x0A, CHR 0x0B, CHR 0x0C, CHR 0x0D])"

definition trim :: "string \<Rightarrow> string" where
  "trim s = rev (dropWhile is_space (rev (dropWhile is_space s)))"

subsection \<open>\<^verbatim>\<open>save\<close> with its pre-save hook\<close>

text \<open>
  \<^verbatim>\<open>doc.save()\<close>: validation, then the \<^verbatim>\<open>pre('save')\<close> hook that calls
  \<open>calculateAverageRating\<close>, then the write: an insert for a new document, a
  replacement of the stored document with the same id otherwise. The schema's
  \<^verbatim>\<open>timestamps\<close> option stamps the document. A failed validation throws and
  writes nothing.
\<close>

definition save_recipe :: "bool \<Rightarrow> date \<Rightarrow> store \<Rightarrow> recipe \<Rightarrow> error + (recipe \<times> store)" where
  "save_recipe isNew now s doc =
     (if \<not> validate doc then Inl ValidationError
      else
        let hooked = calculateAverageRating doc;
            stamped = (if isNew then hooked\<lparr>createdAt := now, updatedAt := now\<rparr>
                       else hooked\<lparr>updatedAt := now\<rparr>)
        in Inr (stamped,
                s\<lparr>Recipe_docs := (if isNew then Recipe_docs s @ [stamped]
                                   else replaceById recipe_id (Recipe_docs s) stamped)\<rparr>))"

definition save_user :: "store \<Rightarrow> user_doc \<Rightarrow> store" where
  "save_user s u = s\<lparr>User_docs := replaceById user_id (User_docs s) u\<rparr>"

section \<open>Requests\<close>

text \<open>
  A value of the request body, as the schema receives it: absent, present but not
  castable to the path's type, or cast to a value of that type. The structured paths may
  also arrive as text to be decoded by \<^verbatim>\<open>JSON.parse\<close>.
\<close>

datatype 'a slot = Missing | Invalid | Valid 'a

datatype 'a field = Plain "'a slot" | Text string

definition is_valid :: "'a slot \<Rightarrow> bool" where
  "is_valid x = (case x of Valid _ \<Rightarrow> True | _ \<Rightarrow> False)"

definition slot_or :: "'a \<Rightarrow> 'a slot \<Rightarrow> 'a" where
  "slot_or d x = (case x of Valid v \<Rightarrow> v | _ \<Rightarrow> d)"

text \<open>
  \<^verbatim>\<open>JSON.parse\<close> is a built-in of the language: it is a parameter of the handlers,
  one decoder per structured path, giving \<open>None\<close> where it throws its SyntaxError and
  otherwise what the schema makes of the decoded value.
\<close>

record json =
  parse_ingredients :: "string \<Rightarrow> ingredient list slot option"
  parse_instructions :: "string \<Rightarrow> instruction_step list slot option"
  parse_tags :: "string \<Rightarrow> string list slot option"
  parse_nutritionalInfo :: "string \<Rightarrow> nutritional_info slot option"
  parse_cookingTime :: "string \<Rightarrow> cooking_time slot option"

record body =
  b_title :: "string slot"
  b_description :: "string slot"
  b_ingredients :: "ingredient list field"
  b_instructions :: "instruction_step list field"
  b_cookingTime :: "cooking_time field"
  b_servings :: "int slot"
  b_difficulty :: "string slot"
  b_cuisine :: "string slot"
  b_dietType :: "string slot"
  b_calories :: "int slot"
  b_tags :: "string list field"
  b_nutritionalInfo :: "nutritional_info field"
  b_image :: "string slot"
  b_author :: "oid slot"
  b_ratings :: "rating_entry list slot"
  b_averageRating :: "rat slot"
  b_totalRatings :: "nat slot"
  b_isPublic :: "bool slot"

section \<open>Handlers (controllers/recipeController.js)\<close>

text \<open>
  A handler takes the store and the request and returns its reply with the store it
  leaves. \<^verbatim>\<open>populate\<close> only decorates a reply with fields of the referenced users and
  is left out. The id of a new document and the clock are inputs. The handlers embedded
  are \<open>createRecipe\<close>, \<open>getRecipes\<close>, \<open>updateRecipe\<close>, \<open>deleteRecipe\<close>,
  \<open>rateRecipe\<close>, \<open>getUserRecipes\<close>, \<open>addToFavorites\<close> and \<open>removeFromFavorites\<close>.
\<close>

subsection \<open>createRecipe\<close>

definition parsed :: "(string \<Rightarrow> 'a slot option) \<Rightarrow> 'a field \<Rightarrow> error + 'a slot" where
  "parsed JSON_parse x =
     (case x of
        Text t \<Rightarrow> (case JSON_parse t of None \<Rightarrow> Inl SyntaxError | Some v \<Rightarrow> Inr v)
      | Plain v \<Rightarrow> Inr v)"

text \<open>The argument of \<^verbatim>\<open>new Recipe({...})\<close>.\<close>

record recipe_draft =
  d_title :: "string slot"
  d_description :: "string slot"
  d_ingredients :: "ingredient list slot"
  d_instructions :: "instruction_step list slot"
  d_cookingTime :: "cooking_time slot"
  d_servings :: "int slot"
  d_difficulty :: "string slot"
  d_cuisine :: "string slot"
  d_dietType :: "string slot"
  d_calories :: "int slot"
  d_image :: string
  d_author :: oid
  d_tags :: "string list slot"
  d_nutritionalInfo :: "nutritional_info slot"

definition no_nutritionalInfo :: nutritional_info where
  "no_nutritionalInfo = \<lparr>protein = None, carbs = None, fat = None, fiber = None, sugar = None\<rparr>"

text \<open>
  The document \<^verbatim>\<open>new Recipe\<close> builds, with the schema's defaults and setters; the
  array paths are not required and default to the empty array. Where a required path has
  no value or a value failed its cast there is no well-typed document: \<^verbatim>\<open>save\<close>
  rejects such a draft with a validation error.
\<close>

definition new_Recipe :: "oid \<Rightarrow> recipe_draft \<Rightarrow> recipe option" where
  "new_Recipe fresh d =
     (if is_valid (d_title d) \<and> is_valid (d_description d) \<and> d_ingredients d \<noteq> Invalid \<and>
         d_instructions d \<noteq> Invalid \<and> is_valid (d_cookingTime d) \<and> is_valid (d_servings d) \<and>
         is_valid (d_difficulty d) \<and> is_valid (d_cuisine d) \<and> is_valid (d_dietType d) \<and>
         d_calories d \<noteq> Invalid \<and> d_tags d \<noteq> Invalid \<and> d_nutritionalInfo d \<noteq> Invalid
      then Some
        \<lparr>recipe_id = fresh,
         title = trim (slot_or [] (d_title d)),
         description = slot_or [] (d_description d),
         ingredients = slot_or [] (d_ingredients d),
         instructions = slot_or [] (d_instructions d),
         cookingTime = slot_or \<lparr>prep = 0, cook = 0\<rparr> (d_cookingTime d),
         servings = slot_or 0 (d_servings d),
         difficulty = slot_or [] (d_difficulty d),
         cuisine = trim (slot_or [] (d_cuisine d)),
         dietType = slot_or [] (d_dietType d),
         calories = (case d_calories d of Valid c \<Rightarrow> Some c | _ \<Rightarrow> None),
         image = d_image d,
         author = d_author d,
         ratings = [],
         averageRating = 0,
         totalRatings = 0,
         isPublic = True,
         tags = map trim (slot_or [] (d_tags d)),
         nutritionalInfo = slot_or no_nutritionalInfo (d_nutritionalInfo d),
         createdAt = 0,
         updatedAt = 0\<rparr>
      else None)"

definition createRecipe ::
  "json \<Rightarrow> oid \<Rightarrow> date \<Rightarrow> store \<Rightarrow> oid \<Rightarrow> body \<Rightarrow> string option \<Rightarrow> (error + recipe_view) \<times> store" where
  "createRecipe JSON fresh now s caller b file =
     (case parsed (parse_ingredients JSON) (b_ingredients b) of Inl e \<Rightarrow> (Inl e, s)
      | Inr parsedIngredients \<Rightarrow>
     (case parsed (parse_instructions JSON) (b_instructions b) of Inl e \<Rightarrow> (Inl e, s)
      | Inr parsedInstructions \<Rightarrow>
     (case parsed (parse_tags JSON) (b_tags b) of Inl e \<Rightarrow> (Inl e, s)
      | Inr parsedTags \<Rightarrow>
     (case parsed (parse_nutritionalInfo JSON) (b_nutritionalInfo b) of Inl e \<Rightarrow> (Inl e, s)
      | Inr parsedNutritionalInfo \<Rightarrow>
     (case parsed (parse_cookingTime JSON) (b_cookingTime b) of Inl e \<Rightarrow> (Inl e, s)
      | Inr parsedCookingTime \<Rightarrow>
        let draft =
          \<lparr>d_title = b_title b,
           d_description = b_description b,
           d_ingredients = parsedIngredients,
           d_instructions = parsedInstructions,
           d_cookingTime = parsedCookingTime,
           d_servings = b_servings b,
           d_difficulty = b_difficulty b,
           d_cuisine = b_cuisine b,
           d_dietType = b_dietType b,
           d_calories = b_calories b,
           d_image = (case file of Some filename \<Rightarrow> ''/uploads/'' @ filename | None \<Rightarrow> []),
           d_author = caller,
           d_tags = (case parsedTags of Missing \<Rightarrow> Valid [] | v \<Rightarrow> v),
           d_nutritionalInfo =
             (case parsedNutritionalInfo of Missing \<Rightarrow> Valid no_nutritionalInfo | v \<Rightarrow> v)\<rparr>
        in (case new_Recipe fresh draft of
              None \<Rightarrow> (Inl ValidationError, s)
            | Some recipe \<Rightarrow>
                (case save_recipe True now s recipe of
                   Inl e \<Rightarrow> (Inl e, s)
                 | Inr (doc, s') \<Rightarrow> (Inr (toJSON doc), s'))))))))"

subsection \<open>updateRecipe and deleteRecipe\<close>

text \<open>
  \<^verbatim>\<open>updates = { ...req.body }\<close>: every path of the body. What the update does with a
  path: nothing (the path is not in the body), a failed cast, a failed validator, a value
  that is cast and checked by the path's validators, or a value that is written as it
  is, without cast or validator.
\<close>

datatype 'a upd = Unset | Uncastable | Unvalidatable | Checked 'a | Raw 'a

definition upd_of_slot :: "'a slot \<Rightarrow> 'a upd" where
  "upd_of_slot x = (case x of Missing \<Rightarrow> Unset | Invalid \<Rightarrow> Uncastable | Valid v \<Rightarrow> Checked v)"

text \<open>
  A structured path is decoded only when it is a non-empty string. An empty string stays
  as it is: \<open>uncoded\<close> is what the update then does with the path.
\<close>

definition update_parsed ::
  "'a upd \<Rightarrow> (string \<Rightarrow> 'a slot option) \<Rightarrow> 'a field \<Rightarrow> error + 'a upd" where
  "update_parsed uncoded JSON_parse x =
     (case x of
        Text t \<Rightarrow>
          (if t \<noteq> []
           then (case JSON_parse t of None \<Rightarrow> Inl SyntaxError | Some v \<Rightarrow> Inr (upd_of_slot v))
           else Inr uncoded)
      | Plain v \<Rightarrow> Inr (upd_of_slot v))"

record recipe_updates =
  u_title :: "string upd"
  u_description :: "string upd"
  u_ingredients :: "ingredient list upd"
  u_instructions :: "instruction_step list upd"
  u_cookingTime :: "cooking_time upd"
  u_servings :: "int upd"
  u_difficulty :: "string upd"
  u_cuisine :: "string upd"
  u_dietType :: "string upd"
  u_calories :: "int upd"
  u_tags :: "string list upd"
  u_nutritionalInfo :: "nutritional_info upd"
  u_image :: "string upd"
  u_author :: "oid upd"
  u_ratings :: "rating_entry list upd"
  u_averageRating :: "rat upd"
  u_totalRatings :: "nat upd"
  u_isPublic :: "bool upd"

definition map_upd :: "('a \<Rightarrow> 'b) \<Rightarrow> 'a upd \<Rightarrow> 'b upd" where
  "map_upd f x =
     (case x of Unset \<Rightarrow> Unset | Uncastable \<Rightarrow> Uncastable | Unvalidatable \<Rightarrow> Unvalidatable
      | Checked v \<Rightarrow> Checked (f v) | Raw v \<Rightarrow> Raw (f v))"

definition upd_or :: "'a \<Rightarrow> 'a upd \<Rightarrow> 'a" where
  "upd_or d x = (case x of Checked v \<Rightarrow> v | Raw v \<Rightarrow> v | _ \<Rightarrow> d)"

definition castable :: "recipe_updates \<Rightarrow> bool" where
  "castable u =
     (u_title u \<noteq> Uncastable \<and> u_description u \<noteq> Uncastable \<and> u_ingredients u \<noteq> Uncastable \<and>
      u_instructions u \<noteq> Uncastable \<and> u_cookingTime u \<noteq> Uncastable \<and>
      u_servings u \<noteq> Uncastable \<and> u_difficulty u \<noteq> Uncastable \<and> u_cuisine u \<noteq> Uncastable \<and>
      u_dietType u \<noteq> Uncastable \<and> u_calories u \<noteq> Uncastable \<and> u_tags u \<noteq> Uncastable \<and>
      u_nutritionalInfo u \<noteq> Uncastable \<and> u_image u \<noteq> Uncastable \<and> u_author u \<noteq> Uncastable \<and>
      u_ratings u \<noteq> Uncastable \<and> u_averageRating u \<noteq> Uncastable \<and>
      u_totalRatings u \<noteq> Uncastable \<and> u_isPublic u \<noteq> Uncastable)"

definition update_ok :: "('a \<Rightarrow> bool) \<Rightarrow> 'a upd \<Rightarrow> bool" where
  "update_ok ok x = (case x of Checked v \<Rightarrow> ok v | Unvalidatable \<Rightarrow> False | _ \<Rightarrow> True)"

text \<open>\<^verbatim>\<open>runValidators: true\<close>: the validators of the paths the update sets.\<close>

definition validate_updates :: "recipe_updates \<Rightarrow> bool" where
  "validate_updates u =
     (update_ok valid_title (map_upd trim (u_title u)) \<and>
      update_ok valid_description (u_description u) \<and>
      update_ok valid_ingredients (u_ingredients u) \<and>
      update_ok valid_instructions (u_instructions u) \<and>
      update_ok valid_cookingTime (u_cookingTime u) \<and>
      update_ok valid_servings (u_servings u) \<and>
      update_ok valid_difficulty (u_difficulty u) \<and>
      update_ok valid_cuisine (map_upd trim (u_cuisine u)) \<and>
      update_ok valid_dietType (u_dietType u) \<and>
      update_ok (\<lambda>c. valid_calories (Some c)) (u_calories u) \<and>
      update_ok (\<lambda>t. True) (u_tags u) \<and>
      update_ok (\<lambda>n. True) (u_nutritionalInfo u) \<and>
      update_ok valid_image (u_image u) \<and>
      update_ok (\<lambda>a. True) (u_author u) \<and>
      update_ok valid_ratings (u_ratings u) \<and>
      update_ok valid_averageRating (u_averageRating u) \<and>
      update_ok (\<lambda>n. True) (u_totalRatings u) \<and>
      update_ok (\<lambda>p. True) (u_isPublic u))"

definition apply_updates :: "recipe_updates \<Rightarrow> recipe \<Rightarrow> recipe" where
  "apply_updates u doc =
     doc\<lparr>title := upd_or (title doc) (map_upd trim (u_title u)),
         description := upd_or (description doc) (u_description u),
         ingredients := upd_or (ingredients doc) (u_ingredients u),
         instructions := upd_or (instructions doc) (u_instructions u),
         cookingTime := upd_or (cookingTime doc) (u_cookingTime u),
         servings := upd_or (servings doc) (u_servings u),
         difficulty := upd_or (difficulty doc) (u_difficulty u),
         cuisine := upd_or (cuisine doc) (map_upd trim (u_cuisine u)),
         dietType := upd_or (dietType doc) (u_dietType u),
         calories := upd_or (calories doc) (map_upd Some (u_calories u)),
         tags := upd_or (tags doc) (map_upd (map trim) (u_tags u)),
         nutritionalInfo := upd_or (nutritionalInfo doc) (u_nutritionalInfo u),
         image := upd_or (image doc) (u_image u),
         author := upd_or (author doc) (u_author u),
         ratings := upd_or (ratings doc) (u_ratings u),
         averageRating := upd_or (averageRating doc) (u_averageRating u),
         totalRatings := upd_or (totalRatings doc) (u_totalRatings u),
         isPublic := upd_or (isPublic doc) (u_isPublic u)\<rparr>"

text \<open>
  \<^verbatim>\<open>Recipe.findByIdAndUpdate(id, updates, {new: true, runValidators: true})\<close>: the
  update is cast and validated, then written to the stored document in place. It is a
  query, not \<^verbatim>\<open>save\<close>: no \<^verbatim>\<open>pre('save')\<close> hook runs.
\<close>

definition findByIdAndUpdate ::
  "date \<Rightarrow> store \<Rightarrow> oid \<Rightarrow> recipe_updates \<Rightarrow> error + (recipe option \<times> store)" where
  "findByIdAndUpdate now s i u =
     (if \<not> castable u then Inl CastError
      else if \<not> validate_updates u then Inl ValidationError
      else
        (case findById recipe_id (Recipe_docs s) i of
           None \<Rightarrow> Inr (None, s)
         | Some doc \<Rightarrow>
             let doc' = (apply_updates u doc)\<lparr>updatedAt := now\<rparr>
             in Inr (Some doc', s\<lparr>Recipe_docs := replaceById recipe_id (Recipe_docs s) doc'\<rparr>)))"

text \<open>
  An element of a document array that was written as the empty string has none of the
  fields of the element's schema.
\<close>

definition blank_ingredient :: ingredient where
  "blank_ingredient = \<lparr>name = [], quantity = [], unit = []\<rparr>"

definition blank_step :: instruction_step where
  "blank_step = \<lparr>stepNumber = None, instruction = []\<rparr>"

text \<open>
  \<open>param\<close> is \<^verbatim>\<open>req.params.id\<close>, the text of the route. An empty string on
  \<open>ingredients\<close>, \<open>instructions\<close> or \<open>nutritionalInfo\<close> is written as it is (the array
  then holds one element without fields, the nested path no field); on \<open>tags\<close> it is the
  one tag of an array of strings; on \<open>cookingTime\<close> the validators reject it.
\<close>

definition updateRecipe ::
  "json \<Rightarrow> date \<Rightarrow> store \<Rightarrow> oid \<Rightarrow> string \<Rightarrow> body \<Rightarrow> string option
     \<Rightarrow> (error + recipe_view option) \<times> store" where
  "updateRecipe JSON now s caller param b file =
     (case castObjectId param of
        None \<Rightarrow> (Inl CastError, s)
      | Some i \<Rightarrow>
     (case findById recipe_id (Recipe_docs s) i of
        None \<Rightarrow> (Inl NotFound, s)
      | Some recipe \<Rightarrow>
          if author recipe \<noteq> caller then (Inl Forbidden, s)
          else
     (case update_parsed (Raw [blank_ingredient]) (parse_ingredients JSON) (b_ingredients b) of
        Inl e \<Rightarrow> (Inl e, s)
      | Inr ingredients' \<Rightarrow>
     (case update_parsed (Raw [blank_step]) (parse_instructions JSON) (b_instructions b) of
        Inl e \<Rightarrow> (Inl e, s)
      | Inr instructions' \<Rightarrow>
     (case update_parsed (Checked [[]]) (parse_tags JSON) (b_tags b) of Inl e \<Rightarrow> (Inl e, s)
      | Inr tags' \<Rightarrow>
     (case update_parsed (Raw no_nutritionalInfo) (parse_nutritionalInfo JSON)
             (b_nutritionalInfo b) of
        Inl e \<Rightarrow> (Inl e, s)
      | Inr nutritionalInfo' \<Rightarrow>
     (case update_parsed Unvalidatable (parse_cookingTime JSON) (b_cookingTime b) of
        Inl e \<Rightarrow> (Inl e, s)
      | Inr cookingTime' \<Rightarrow>
        let updates =
          \<lparr>u_title = upd_of_slot (b_title b),
           u_description = upd_of_slot (b_description b),
           u_ingredients = ingredients',
           u_instructions = instructions',
           u_cookingTime = cookingTime',
           u_servings = upd_of_slot (b_servings b),
           u_difficulty = upd_of_slot (b_difficulty b),
           u_cuisine = upd_of_slot (b_cuisine b),
           u_dietType = upd_of_slot (b_dietType b),
           u_calories = upd_of_slot (b_calories b),
           u_tags = tags',
           u_nutritionalInfo = nutritionalInfo',
           u_image = (case file of Some filename \<Rightarrow> Checked (''/uploads/'' @ filename)
                      | None \<Rightarrow> upd_of_slot (b_image b)),
           u_author = upd_of_slot (b_author b),
           u_ratings = upd_of_slot (b_ratings b),
           u_averageRating = upd_of_slot (b_averageRating b),
           u_totalRatings = upd_of_slot (b_totalRatings b),
           u_isPublic = upd_of_slot (b_isPublic b)\<rparr>
        in (case findByIdAndUpdate now s i updates of
              Inl e \<Rightarrow> (Inl e, s)
            | Inr (updatedRecipe, s') \<Rightarrow> (Inr (map_option toJSON updatedRecipe), s')))))))))"

definition deleteRecipe :: "store \<Rightarrow> oid \<Rightarrow> string \<Rightarrow> (error + unit) \<times> store" where
  "deleteRecipe s caller param =
     (case castObjectId param of
        None \<Rightarrow> (Inl CastError, s)
      | Some i \<Rightarrow>
          (case findById recipe_id (Recipe_docs s) i of
             None \<Rightarrow> (Inl NotFound, s)
           | Some recipe \<Rightarrow>
               if author recipe \<noteq> caller then (Inl Forbidden, s)
               else (Inr (), s\<lparr>Recipe_docs := deleteById recipe_id (Recipe_docs s) i\<rparr>)))"

subsection \<open>rateRecipe\<close>

text \<open>\<^verbatim>\<open>Array.prototype.findIndex\<close>: the first index that satisfies the test, \<open>None\<close> for -1.\<close>

fun findIndex :: "('a \<Rightarrow> bool) \<Rightarrow> 'a list \<Rightarrow> nat option" where
  "findIndex p [] = None"
| "findIndex p (x # xs) = (if p x then Some 0 else map_option Suc (findIndex p xs))"

text \<open>
  The branch on \<^verbatim>\<open>existingRatingIndex\<close>: assignment at the index, or \<^verbatim>\<open>push\<close>. Both
  are taken to reach the stored document on \<^verbatim>\<open>save\<close> (the store library tracks an
  assignment to an array index since its version 6).
\<close>

definition upsert_rating :: "oid \<Rightarrow> rating_entry \<Rightarrow> rating_entry list \<Rightarrow> rating_entry list" where
  "upsert_rating caller entry rs =
     (case findIndex (\<lambda>r. user r = caller) rs of
        Some existingRatingIndex \<Rightarrow> rs[existingRatingIndex := entry]
      | None \<Rightarrow> rs @ [entry])"

text \<open>
  The request's \<open>rating\<close> is given as \<^verbatim>\<open>parseInt\<close> leaves it: an integer, or \<open>None\<close> for
  NaN, which the Number path cannot hold, so that \<^verbatim>\<open>save\<close> fails validation.
  \<open>rating_object\<close> is the object literal both branches write; \<^verbatim>\<open>comment || ''\<close> turns a
  missing comment into the empty string.
\<close>

definition rating_object :: "oid \<Rightarrow> int \<Rightarrow> string option \<Rightarrow> rating_entry" where
  "rating_object caller n comment_in =
     \<lparr>user = caller, rating = n, comment = (case comment_in of None \<Rightarrow> [] | Some c \<Rightarrow> c)\<rparr>"

definition rateRecipe ::
  "date \<Rightarrow> store \<Rightarrow> oid \<Rightarrow> string \<Rightarrow> int option \<Rightarrow> string option
     \<Rightarrow> (error + recipe_view) \<times> store" where
  "rateRecipe now s caller param rating_in comment_in =
     (case castObjectId param of
        None \<Rightarrow> (Inl CastError, s)
      | Some i \<Rightarrow>
     (case findById recipe_id (Recipe_docs s) i of
        None \<Rightarrow> (Inl NotFound, s)
      | Some recipe \<Rightarrow>
          (case rating_in of
             None \<Rightarrow> (Inl ValidationError, s)
           | Some n \<Rightarrow>
               let recipe' = recipe\<lparr>ratings :=
                     upsert_rating caller (rating_object caller n comment_in) (ratings recipe)\<rparr>
               in (case save_recipe False now s recipe' of
                     Inl e \<Rightarrow> (Inl e, s)
                   | Inr (doc, s') \<Rightarrow> (Inr (toJSON doc), s')))))"

subsection \<open>Favorites\<close>

text \<open>
  \<open>addToFavorites\<close> looks the recipe up by the cast of the route text, tests
  \<^verbatim>\<open>favoriteRecipes.includes(req.params.id)\<close> on the text itself (an entry matches when
  its \<^verbatim>\<open>toString()\<close> is that text), and pushes the text, which the array casts to
  an id. \<open>removeFromFavorites\<close> keeps the entries whose \<^verbatim>\<open>toString()\<close> differs from the
  text and casts nothing.
\<close>

definition addToFavorites :: "store \<Rightarrow> oid \<Rightarrow> string \<Rightarrow> (error + unit) \<times> store" where
  "addToFavorites s caller param =
     (case castObjectId param of
        None \<Rightarrow> (Inl CastError, s)
      | Some i \<Rightarrow>
     (case findById recipe_id (Recipe_docs s) i of
        None \<Rightarrow> (Inl NotFound, s)
      | Some recipe \<Rightarrow>
          (case findById user_id (User_docs s) caller of
             None \<Rightarrow> (Inl TypeError, s)
           | Some u \<Rightarrow>
               if param \<in> set (map toString (favoriteRecipes u)) then (Inl Conflict, s)
               else (Inr (), save_user s (u\<lparr>favoriteRecipes := favoriteRecipes u @ [i]\<rparr>)))))"

definition removeFromFavorites :: "store \<Rightarrow> oid \<Rightarrow> string \<Rightarrow> (error + unit) \<times> store" where
  "removeFromFavorites s caller param =
     (case findById user_id (User_docs s) caller of
        None \<Rightarrow> (Inl TypeError, s)
      | Some u \<Rightarrow>
          (Inr (), save_user s
             (u\<lparr>favoriteRecipes := filter (\<lambda>x. toString x \<noteq> param) (favoriteRecipes u)\<rparr>)))"

subsection \<open>Listings: getRecipes and getUserRecipes\<close>

text \<open>
  JavaScript numbers: the finite ones exactly, as rationals (no rounding, and no negative
  zero), and the three that are not finite, with the arithmetic and the comparisons of
  the language on them.
\<close>

datatype jsnum = NaN | Infinity | MinusInfinity | Finite rat

definition js_sign :: "jsnum \<Rightarrow> int" where
  "js_sign a =
     (case a of NaN \<Rightarrow> 0 | Infinity \<Rightarrow> 1 | MinusInfinity \<Rightarrow> - 1
      | Finite x \<Rightarrow> (if x < 0 then - 1 else if x = 0 then 0 else 1))"

definition js_minus :: "jsnum \<Rightarrow> jsnum \<Rightarrow> jsnum" where
  "js_minus a b =
     (case (a, b) of
        (Finite x, Finite y) \<Rightarrow> Finite (x - y)
      | (Finite x, Infinity) \<Rightarrow> MinusInfinity
      | (Finite x, MinusInfinity) \<Rightarrow> Infinity
      | (Infinity, Finite y) \<Rightarrow> Infinity
      | (Infinity, MinusInfinity) \<Rightarrow> Infinity
      | (MinusInfinity, Finite y) \<Rightarrow> MinusInfinity
      | (MinusInfinity, Infinity) \<Rightarrow> MinusInfinity
      | _ \<Rightarrow> NaN)"

definition js_times :: "jsnum \<Rightarrow> jsnum \<Rightarrow> jsnum" where
  "js_times a b =
     (case (a, b) of
        (Finite x, Finite y) \<Rightarrow> Finite (x * y)
      | _ \<Rightarrow>
          if a = NaN \<or> b = NaN \<or> js_sign a * js_sign b = 0 then NaN
          else if 0 < js_sign a * js_sign b then Infinity else MinusInfinity)"

definition js_divide :: "jsnum \<Rightarrow> jsnum \<Rightarrow> jsnum" where
  "js_divide a b =
     (case (a, b) of
        (Finite x, Finite y) \<Rightarrow>
          (if y \<noteq> 0 then Finite (x / y)
           else if x = 0 then NaN else if 0 < x then Infinity else MinusInfinity)
      | (Finite x, Infinity) \<Rightarrow> Finite 0
      | (Finite x, MinusInfinity) \<Rightarrow> Finite 0
      | (Infinity, Finite y) \<Rightarrow> (if y < 0 then MinusInfinity else Infinity)
      | (MinusInfinity, Finite y) \<Rightarrow> (if y < 0 then Infinity else MinusInfinity)
      | _ \<Rightarrow> NaN)"

definition Math_ceil :: "jsnum \<Rightarrow> jsnum" where
  "Math_ceil a = (case a of Finite x \<Rightarrow> Finite (of_int \<lceil>x\<rceil>) | _ \<Rightarrow> a)"

definition js_less :: "jsnum \<Rightarrow> jsnum \<Rightarrow> bool" where
  "js_less a b =
     (case (a, b) of
        (Finite x, Finite y) \<Rightarrow> x < y
      | (Finite x, Infinity) \<Rightarrow> True
      | (MinusInfinity, Finite y) \<Rightarrow> True
      | (MinusInfinity, Infinity) \<Rightarrow> True
      | _ \<Rightarrow> False)"

text \<open>
  Query parameters. \<open>page\<close> and \<open>limit\<close> are texts that the handler reads in two ways:
  arithmetic and comparisons coerce the text to a number (\<open>as_Number\<close>), and
  \<^verbatim>\<open>parseInt\<close> reads the integer the text starts with (\<open>as_parseInt\<close>, \<open>None\<close> for NaN).
  The two agree on a plain integer such as \<^verbatim>\<open>2\<close>; the text \<^verbatim>\<open>1e1\<close> is 10 to the first
  and 1 to the second. An absent parameter has the default, the number 1 or 12.
  A numeric filter is absent (undefined or the empty string, both falsy), or what
  \<^verbatim>\<open>parseInt\<close>/\<^verbatim>\<open>parseFloat\<close> makes of it: a number or NaN. The store library
  refuses to cast a NaN into the Number paths \<open>averageRating\<close> and \<open>calories\<close>, and the
  query fails; the maxTime stands in an \<^verbatim>\<open>$expr\<close> comparison with a computed sum, not
  with a path, and no sum is at most NaN.
\<close>

record number_text =
  as_Number :: jsnum
  as_parseInt :: "int option"

definition the_number :: "int \<Rightarrow> number_text" where
  "the_number n = \<lparr>as_Number = Finite (of_int n), as_parseInt = Some n\<rparr>"

datatype 'a qnum = Absent | NotANumber | Number 'a

record list_query =
  q_page :: "number_text option"
  q_limit :: "number_text option"
  q_cuisine :: "string option"
  q_dietType :: "string option"
  q_difficulty :: "string option"
  q_minRating :: "rat qnum"
  q_maxCalories :: "int qnum"
  q_maxTime :: "int qnum"
  q_search :: "string option"
  q_sortBy :: "string option"
  q_sortOrder :: "string option"

definition exact :: "string option \<Rightarrow> string \<Rightarrow> bool" where
  "exact q v = (case q of None \<Rightarrow> True | Some c \<Rightarrow> c = [] \<or> c = ''All'' \<or> v = c)"

text \<open>
  The filter object of \<open>getRecipes\<close> as a predicate on a stored document. \<open>re\<close> is the
  compiled case-insensitive \<^verbatim>\<open>$regex\<close> of the search text, when there is one.
\<close>

definition matches_filter :: "(string \<Rightarrow> bool) option \<Rightarrow> list_query \<Rightarrow> recipe \<Rightarrow> bool" where
  "matches_filter re q doc =
     (isPublic doc \<and>
      exact (q_cuisine q) (cuisine doc) \<and>
      exact (q_dietType q) (dietType doc) \<and>
      exact (q_difficulty q) (difficulty doc) \<and>
      (case q_minRating q of Absent \<Rightarrow> True | NotANumber \<Rightarrow> False
       | Number m \<Rightarrow> m \<le> averageRating doc) \<and>
      (case q_maxCalories q of Absent \<Rightarrow> True | NotANumber \<Rightarrow> False
       | Number m \<Rightarrow> (case calories doc of None \<Rightarrow> False | Some c \<Rightarrow> c \<le> m)) \<and>
      (case q_maxTime q of Absent \<Rightarrow> True | NotANumber \<Rightarrow> False
       | Number m \<Rightarrow> prep (cookingTime doc) + cook (cookingTime doc) \<le> m) \<and>
      (case re of None \<Rightarrow> True
       | Some matches \<Rightarrow>
           matches (title doc) \<or> matches (description doc) \<or>
           list_ex (\<lambda>i. matches (name i)) (ingredients doc) \<or> list_ex matches (tags doc)))"

text \<open>
  Sorting by a path of the schema. A key is the rank of the value's type in the store's
  comparison order (missing, number, string, object id, boolean, date) and then the
  value. Paths that hold arrays or objects, and names the schema does not have, give
  every document the same key. Descending order is the reverse of ascending order; the
  store promises no particular order among equal keys.
\<close>

definition sort_key_of :: "string \<Rightarrow> recipe \<Rightarrow> nat \<times> rat \<times> string" where
  "sort_key_of path doc =
     (if path = ''createdAt'' then (5, of_int (createdAt doc), [])
      else if path = ''updatedAt'' then (5, of_int (updatedAt doc), [])
      else if path = ''isPublic'' then (4, (if isPublic doc then 1 else 0), [])
      else if path = ''_id'' then (3, 0, toString (recipe_id doc))
      else if path = ''author'' then (3, 0, toString (author doc))
      else if path = ''title'' then (2, 0, title doc)
      else if path = ''description'' then (2, 0, description doc)
      else if path = ''difficulty'' then (2, 0, difficulty doc)
      else if path = ''cuisine'' then (2, 0, cuisine doc)
      else if path = ''dietType'' then (2, 0, dietType doc)
      else if path = ''image'' then (2, 0, image doc)
      else if path = ''averageRating'' then (1, averageRating doc, [])
      else if path = ''totalRatings'' then (1, of_nat (totalRatings doc), [])
      else if path = ''servings'' then (1, of_int (servings doc), [])
      else if path = ''cookingTime.prep'' then (1, of_int (prep (cookingTime doc)), [])
      else if path = ''cookingTime.cook'' then (1, of_int (cook (cookingTime doc)), [])
      else if path = ''calories'' then
        (case calories doc of None \<Rightarrow> (0, 0, []) | Some c \<Rightarrow> (1, of_int c, []))
      else (0, 0, []))"

definition sort_docs :: "string \<Rightarrow> bool \<Rightarrow> recipe list \<Rightarrow> recipe list" where
  "sort_docs path descending docs =
     (if descending then rev (sort_key (sort_key_of path) docs)
      else sort_key (sort_key_of path) docs)"

text \<open>
  \<^verbatim>\<open>.skip(skip).limit(n)\<close>: the store takes a skip that is a non-negative integer and
  refuses any other number, as it refuses a limit that is NaN; a limit of 0 is no limit,
  and a negative limit counts as its absolute value.
\<close>

definition skip_limit :: "jsnum \<Rightarrow> int option \<Rightarrow> 'a list \<Rightarrow> error + 'a list" where
  "skip_limit skip n docs =
     (case skip of
        Finite k \<Rightarrow>
          if k < 0 \<or> of_int \<lfloor>k\<rfloor> \<noteq> k then Inl MongoError
          else
            (case n of
               None \<Rightarrow> Inl MongoError
             | Some m \<Rightarrow>
                 let rest = drop (nat \<lfloor>k\<rfloor>) docs
                 in Inr (if m = 0 then rest else take (nat \<bar>m\<bar>) rest))
      | _ \<Rightarrow> Inl MongoError)"

record pagination_info =
  currentPage :: "int option"
  totalPages :: jsnum
  totalRecipes :: nat
  hasNextPage :: bool
  hasPrevPage :: bool

text \<open>
  The pagination object: \<^verbatim>\<open>parseInt(page)\<close>, \<^verbatim>\<open>Math.ceil(total / limit)\<close>,
  \<^verbatim>\<open>page < totalPages\<close> and \<^verbatim>\<open>page > 1\<close>.
\<close>

definition paginate :: "number_text \<Rightarrow> number_text \<Rightarrow> nat \<Rightarrow> pagination_info" where
  "paginate page limit count =
     (let totalPages = Math_ceil (js_divide (Finite (of_nat count)) (as_Number limit))
      in \<lparr>currentPage = as_parseInt page,
          totalPages = totalPages,
          totalRecipes = count,
          hasNextPage = js_less (as_Number page) totalPages,
          hasPrevPage = js_less (Finite 1) (as_Number page)\<rparr>)"

record listing =
  recipes :: "recipe list"
  pagination :: pagination_info

text \<open>
  \<open>regex\<close> compiles a search text; it is a parameter, \<open>None\<close> where the text is not a
  regular expression and the store rejects the query. An empty or absent search text
  adds no condition.
\<close>

definition search_regex ::
  "(string \<Rightarrow> (string \<Rightarrow> bool) option) \<Rightarrow> list_query \<Rightarrow> (string \<Rightarrow> bool) option option" where
  "search_regex regex q =
     (case q_search q of
        None \<Rightarrow> Some None
      | Some t \<Rightarrow> if t = [] then Some None else map_option Some (regex t))"

definition getRecipes ::
  "(string \<Rightarrow> (string \<Rightarrow> bool) option) \<Rightarrow> store \<Rightarrow> list_query \<Rightarrow> error + listing" where
  "getRecipes regex s q =
     (let page = (case q_page q of None \<Rightarrow> the_number 1 | Some p \<Rightarrow> p);
          limit = (case q_limit q of None \<Rightarrow> the_number 12 | Some l \<Rightarrow> l);
          sortBy = (case q_sortBy q of None \<Rightarrow> ''createdAt'' | Some f \<Rightarrow> f);
          sortOrder = (case q_sortOrder q of None \<Rightarrow> ''desc'' | Some d \<Rightarrow> d)
      in if q_minRating q = NotANumber \<or> q_maxCalories q = NotANumber
         then Inl CastError
         else
           (case search_regex regex q of
              None \<Rightarrow> Inl MongoError
            | Some re \<Rightarrow>
                let found = filter (matches_filter re q) (Recipe_docs s);
                    total = length found;
                    skip = js_times (js_minus (as_Number page) (Finite 1)) (as_Number limit)
                in (case skip_limit skip (as_parseInt limit)
                          (sort_docs sortBy (sortOrder = ''desc'') found) of
                      Inl e \<Rightarrow> Inl e
                    | Inr docs \<Rightarrow>
                        Inr \<lparr>recipes = docs, pagination = paginate page limit total\<rparr>)))"

definition getUserRecipes ::
  "store \<Rightarrow> oid \<Rightarrow> number_text option \<Rightarrow> number_text option \<Rightarrow> error + listing" where
  "getUserRecipes s caller page_in limit_in =
     (let page = (case page_in of None \<Rightarrow> the_number 1 | Some p \<Rightarrow> p);
          limit = (case limit_in of None \<Rightarrow> the_number 12 | Some l \<Rightarrow> l);
          found = filter (\<lambda>doc. author doc = caller) (Recipe_docs s);
          total = length found;
          skip = js_times (js_minus (as_Number page) (Finite 1)) (as_Number limit)
      in (case skip_limit skip (as_parseInt limit) (sort_docs ''createdAt'' True found) of
            Inl e \<Rightarrow> Inl e
          | Inr docs \<Rightarrow> Inr \<lparr>recipes = docs, pagination = paginate page limit total\<rparr>))"

section \<open>Sequences of requests\<close>



text \<open>
  A route text is spelled as an id is written when it casts to no id, or is the
  \<^verbatim>\<open>toString()\<close> of the id it casts to (its letters are in lower case).
\<close>

definition spelled_as_written :: "string \<Rightarrow> bool" where
  "spelled_as_written t = (case castObjectId t of None \<Rightarrow> True | Some i \<Rightarrow> toString i = t)"


definition favorites_distinct :: "store \<Rightarrow> bool" where
  "favorites_distinct s = list_all (\<lambda>u. distinct (favoriteRecipes u)) (User_docs s)"

section \<open>The rating aggregate in the spec's words\<close>

text \<open>
  The mean of the rating values rounded to one decimal, 0 for no ratings, and the number
  of ratings: what the stored \<open>averageRating\<close> and \<open>totalRatings\<close> are to equal.
\<close>

definition round_to_1_decimal :: "rat \<Rightarrow> rat" where
  "round_to_1_decimal x = of_int \<lfloor>x * 10 + 1 / 2\<rfloor> / 10"

definition spec_mean_rating :: "rating_entry list \<Rightarrow> rat" where
  "spec_mean_rating rs =
     (if rs = [] then 0
      else round_to_1_decimal (of_int (sum_list (map rating rs)) / of_nat (length rs)))"

definition aggregate_consistent :: "recipe \<Rightarrow> bool" where
  "aggregate_consistent doc =
     (averageRating doc = spec_mean_rating (ratings doc) \<and> totalRatings doc = length (ratings doc))"

definition aggregates_consistent :: "store \<Rightarrow> bool" where
  "aggregates_consistent s = list_all aggregate_consistent (Recipe_docs s)"

section \<open>Example data\<close>

text \<open>
  Three users and three recipes, and the pasta recipe's id as a client may also spell it.
\<close>

definition ann :: oid where "ann = ObjectId ''00000000000000000000000a''"
definition bob :: oid where "bob = ObjectId ''00000000000000000000000b''"
definition cyd :: oid where "cyd = ObjectId ''00000000000000000000000c''"

definition pasta_id :: oid where "pasta_id = ObjectId ''0000000000000000000000a1''"
definition salad_id :: oid where "salad_id = ObjectId ''0000000000000000000000a2''"
definition soup_id :: oid where "soup_id = ObjectId ''0000000000000000000000a3''"

definition pasta_text :: string where "pasta_text = ''0000000000000000000000a1''"
definition pasta_upper :: string where "pasta_upper = ''0000000000000000000000A1''"
definition unknown_text :: string where "unknown_text = ''0000000000000000000000ff''"

text \<open>
  Decoders for the examples. Each knows one text; on the texts the examples use they
  agree with \<^verbatim>\<open>JSON.parse\<close>, which decodes \<^verbatim>\<open>[]\<close> to the empty array and throws on \<^verbatim>\<open>{\<close>.
\<close>

definition decode_only :: "string \<Rightarrow> 'a slot \<Rightarrow> string \<Rightarrow> 'a slot option" where
  "decode_only known v t = (if t = known then Some v else None)"

definition demo_json :: json where
  "demo_json =
     \<lparr>parse_ingredients = decode_only ''[]'' (Valid []),
      parse_instructions = decode_only ''[]'' (Valid []),
      parse_tags = decode_only ''[]'' (Valid []),
      parse_nutritionalInfo = decode_only ''{}'' (Valid no_nutritionalInfo),
      parse_cookingTime = decode_only ''{}'' Invalid\<rparr>"

definition pasta_body :: body where
  "pasta_body =
     \<lparr>b_title = Valid ''Pasta'',
      b_description = Valid ''Quick'',
      b_ingredients = Plain (Valid [\<lparr>name = ''flour'', quantity = ''1'', unit = ''kg''\<rparr>]),
      b_instructions = Plain (Valid [\<lparr>stepNumber = Some 1, instruction = ''Boil''\<rparr>]),
      b_cookingTime = Plain (Valid \<lparr>prep = 10, cook = 20\<rparr>),
      b_servings = Valid 2,
      b_difficulty = Valid ''Easy'',
      b_cuisine = Valid ''Italian'',
      b_dietType = Valid ''Vegan'',
      b_calories = Missing,
      b_tags = Plain Missing,
      b_nutritionalInfo = Plain Missing,
      b_image = Missing,
      b_author = Missing,
      b_ratings = Missing,
      b_averageRating = Missing,
      b_totalRatings = Missing,
      b_isPublic = Missing\<rparr>"

definition no_body :: body where
  "no_body =
     \<lparr>b_title = Missing, b_description = Missing, b_ingredients = Plain Missing,
      b_instructions = Plain Missing, b_cookingTime = Plain Missing, b_servings = Missing,
      b_difficulty = Missing, b_cuisine = Missing, b_dietType = Missing, b_calories = Missing,
      b_tags = Plain Missing, b_nutritionalInfo = Plain Missing, b_image = Missing,
      b_author = Missing, b_ratings = Missing, b_averageRating = Missing,
      b_totalRatings = Missing, b_isPublic = Missing\<rparr>"

definition pasta :: recipe where
  "pasta =
     \<lparr>recipe_id = pasta_id,
      title = ''Pasta'',
      description = ''Quick'',
      ingredients = [\<lparr>name = ''flour'', quantity = ''1'', unit = ''kg''\<rparr>],
      instructions = [\<lparr>stepNumber = Some 1, instruction = ''Boil''\<rparr>],
      cookingTime = \<lparr>prep = 10, cook = 20\<rparr>,
      servings = 2,
      difficulty = ''Easy'',
      cuisine = ''Italian'',
      dietType = ''Vegan'',
      calories = None,
      image = ''/uploads/p.png'',
      author = ann,
      ratings = [],
      averageRating = 0,
      totalRatings = 0,
      isPublic = True,
      tags = [],
      nutritionalInfo = no_nutritionalInfo,
      createdAt = 1000,
      updatedAt = 1000\<rparr>"

definition empty_store :: store where
  "empty_store = \<lparr>Recipe_docs = [], User_docs = []\<rparr>"

definition pasta_store :: store where
  "pasta_store =
     \<lparr>Recipe_docs = [pasta],
      User_docs = [\<lparr>user_id = ann, favoriteRecipes = []\<rparr>,
                   \<lparr>user_id = bob, favoriteRecipes = [pasta_id]\<rparr>]\<rparr>"

definition salad :: recipe where
  "salad = pasta\<lparr>recipe_id := salad_id, title := ''Salad'', cookingTime := \<lparr>prep = 5, cook = 1\<rparr>,
                  createdAt := 2000, updatedAt := 2000\<rparr>"

definition soup :: recipe where
  "soup = pasta\<lparr>recipe_id := soup_id, title := ''Soup'', author := cyd, isPublic := False,
                 createdAt := 3000, updatedAt := 3000\<rparr>"

definition three_store :: store where
  "three_store = \<lparr>Recipe_docs = [pasta, salad, soup], User_docs = []\<rparr>"

definition no_query :: list_query where
  "no_query =
     \<lparr>q_page = None, q_limit = None, q_cuisine = None, q_dietType = None, q_difficulty = None,
      q_minRating = Absent, q_maxCalories = Absent, q_maxTime = Absent, q_search = None,
      q_sortBy = None, q_sortOrder = None\<rparr>"

text \<open>
  The pasta recipe after its author has sent an update whose body carries a ratings
  array, and after bob has rated it 5 instead.
\<close>

definition stale_pasta :: recipe where
  "stale_pasta = pasta\<lparr>ratings := [\<lparr>user = bob, rating = 5, comment = []\<rparr>], updatedAt := 2000\<rparr>"

definition rated_pasta :: recipe where
  "rated_pasta = pasta\<lparr>ratings := [\<lparr>user = bob, rating = 5, comment = []\<rparr>],
                       averageRating := 5, totalRatings := 1, updatedAt := 2000\<rparr>"

text \<open>
  The pasta recipe after its author has sent an update whose ratings array holds two
  entries of bob, then after bob has rated it 5, and after bob has rated it 3.
\<close>

definition twice_pasta :: recipe where
  "twice_pasta = pasta\<lparr>ratings := [\<lparr>user = bob, rating = 4, comment = []\<rparr>,
                                     \<lparr>user = bob, rating = 2, comment = []\<rparr>],
                       updatedAt := 2000\<rparr>"

definition twice_pasta_5 :: recipe where
  "twice_pasta_5 = pasta\<lparr>ratings := [\<lparr>user = bob, rating = 5, comment = []\<rparr>,
                                       \<lparr>user = bob, rating = 2, comment = []\<rparr>],
                         averageRating := 7 / 2, totalRatings := 2, updatedAt := 3000\<rparr>"

definition twice_pasta_3 :: recipe where
  "twice_pasta_3 = pasta\<lparr>ratings := [\<lparr>user = bob, rating = 3, comment = []\<rparr>,
                                       \<lparr>user = bob, rating = 2, comment = []\<rparr>],
                         averageRating := 5 / 2, totalRatings := 2, updatedAt := 4000\<rparr>"

section \<open>Decodable bodies\<close>

text \<open>
  A body decodes when \<^verbatim>\<open>JSON.parse\<close> accepts each structured path that arrives as
  text (paths that arrive as values are not decoded).
\<close>

definition decodes :: "(string \<Rightarrow> 'a slot option) \<Rightarrow> 'a field \<Rightarrow> bool" where
  "decodes JSON_parse x = (case x of Text t \<Rightarrow> JSON_parse t \<noteq> None | Plain v \<Rightarrow> True)"

definition texts_decode :: "json \<Rightarrow> body \<Rightarrow> bool" where
  "texts_decode JSON b =
     (decodes (parse_ingredients JSON) (b_ingredients b) \<and>
      decodes (parse_instructions JSON) (b_instructions b) \<and>
      decodes (parse_tags JSON) (b_tags b) \<and>
      decodes (parse_nutritionalInfo JSON) (b_nutritionalInfo b) \<and>
      decodes (parse_cookingTime JSON) (b_cookingTime b))"

section \<open>Lemmas about the store\<close>

lemma toString_inject: "(toString x = toString y) = (x = y)"
  by (cases x; cases y) simp


lemma findById_key: "findById key docs i = Some d \<Longrightarrow> key d = i"
  unfolding findById_def by (induction docs) (auto split: if_splits)


lemma findById_replaceById:
  "findById key docs (key d) \<noteq> None \<Longrightarrow> findById key (replaceById key docs d) (key d) = Some d"
  unfolding findById_def by (induction docs) auto

lemma replaceById_same: "findById key docs (key d) = Some d \<Longrightarrow> replaceById key docs d = docs"
  unfolding findById_def by (induction docs) (auto split: if_splits)

lemma list_all_replaceById:
  "list_all P docs \<Longrightarrow> P d \<Longrightarrow> list_all P (replaceById key docs d)"
  by (induction docs) auto









lemmas valid_defs =
  validate_def valid_title_def valid_description_def valid_ingredients_def
  valid_instructions_def valid_cookingTime_def valid_servings_def valid_difficulty_def
  valid_cuisine_def valid_dietType_def valid_calories_def valid_image_def valid_ratings_def
  valid_averageRating_def

lemmas id_defs =
  ann_def bob_def cyd_def pasta_id_def salad_id_def soup_id_def pasta_text_def pasta_upper_def
  unknown_text_def castObjectId_def is_hex_def lower_hex_def

lemma view_totalTime_toJSON:
  "view_totalTime (toJSON doc) = prep (cookingTime doc) + cook (cookingTime doc)"
  by (simp add: toJSON_def totalTime_def recipe.extend_def recipe_view.fields_def)

lemma createRecipe_pasta:
  "createRecipe demo_json pasta_id 1000 empty_store ann pasta_body (Some ''p.png'') =
     (Inr (toJSON pasta), \<lparr>Recipe_docs = [pasta], User_docs = []\<rparr>)"
  by (simp add: createRecipe_def parsed_def pasta_body_def new_Recipe_def is_valid_def slot_or_def
      save_recipe_def valid_defs trim_def is_space_def calculateAverageRating_def empty_store_def
      pasta_def no_nutritionalInfo_def Let_def)

lemma parsed_Inr: "decodes P x \<Longrightarrow> \<exists>v. parsed P x = Inr v"
  by (auto simp add: parsed_def decodes_def split: field.splits option.splits)

lemma parsed_Inl: "\<not> decodes P x \<Longrightarrow> parsed P x = Inl SyntaxError"
  by (auto simp add: parsed_def decodes_def split: field.splits option.splits)

lemma parsed_error: "parsed P x = Inl e \<Longrightarrow> e = SyntaxError \<and> \<not> decodes P x"
  by (auto simp add: parsed_def decodes_def split: field.splits option.splits)

lemma new_Recipe_image: "new_Recipe fresh d = Some r \<Longrightarrow> image r = d_image d"
  by (auto simp: new_Recipe_def split: if_splits)

lemma new_Recipe_cookingTime:
  "new_Recipe fresh d = Some r \<Longrightarrow> d_cookingTime d = Valid c \<Longrightarrow> cookingTime r = c"
  by (auto simp: new_Recipe_def slot_or_def split: if_splits)

lemma save_recipe_no_image:
  "image doc = [] \<Longrightarrow> save_recipe isNew now s doc = Inl ValidationError"
  by (simp add: save_recipe_def validate_def valid_image_def)

lemma save_recipe_cookingTime:
  "save_recipe isNew now s r = Inr (doc, s') \<Longrightarrow> cookingTime doc = cookingTime r"
  by (auto simp: save_recipe_def calculateAverageRating_def Let_def split: if_splits)

lemma createRecipe_cookingTime:
  assumes "createRecipe JSON fresh now s caller b upload = (Inr view, s')"
      and "b_cookingTime b = Plain (Valid c)"
  shows "view_totalTime view = prep c + cook c"
proof -
  have p: "parsed (parse_cookingTime JSON) (b_cookingTime b) = Inr (Valid c)"
    using assms(2) by (simp add: parsed_def)
  show ?thesis
    using assms(1) p
    by (auto simp: createRecipe_def Let_def view_totalTime_toJSON
        split: sum.splits option.splits prod.splits
        dest!: new_Recipe_cookingTime save_recipe_cookingTime)
qed

section \<open>Lemmas about listings\<close>

lemma less_ceiling_div:
  assumes "0 < (l::int)"
  shows "(p < \<lceil>(of_nat n :: rat) / of_int l\<rceil>) = (p * l < int n)"
proof -
  have "(p < \<lceil>(of_nat n :: rat) / of_int l\<rceil>) = ((of_int p :: rat) < of_nat n / of_int l)"
    by (simp add: less_ceiling_iff)
  also have "\<dots> = ((of_int p :: rat) * of_int l < of_nat n)"
    using assms by (simp add: pos_less_divide_eq)
  also have "\<dots> = ((of_int (p * l) :: rat) < of_int (int n))" by simp
  also have "\<dots> = (p * l < int n)" by (simp only: of_int_less_iff)
  finally show ?thesis .
qed

lemma ceiling_div_bounds:
  assumes "0 < (l::int)"
  shows "(\<lceil>(of_nat n :: rat) / of_int l\<rceil> - 1) * l < int n \<and>
         int n \<le> \<lceil>(of_nat n :: rat) / of_int l\<rceil> * l"
proof -
  let ?c = "\<lceil>(of_nat n :: rat) / of_int l\<rceil>"
  have "?c - 1 < ?c" by simp
  then have "(?c - 1) * l < int n"
    using less_ceiling_div [OF assms, of "?c - 1" n] by simp
  moreover have "\<not> ?c < ?c" by simp
  then have "\<not> ?c * l < int n"
    using less_ceiling_div [OF assms, of ?c n] by simp
  ultimately show ?thesis by simp
qed

text \<open>The pagination object for a page and a positive limit that are integers.\<close>

lemma paginate_integers:
  assumes "as_Number page = Finite (of_int p)" and "as_Number limit = Finite (of_int l)"
      and "0 < l"
  shows "totalPages (paginate page limit n) = Finite (of_int \<lceil>(of_nat n :: rat) / of_int l\<rceil>) \<and>
     hasNextPage (paginate page limit n) = (p < \<lceil>(of_nat n :: rat) / of_int l\<rceil>) \<and>
     hasPrevPage (paginate page limit n) = (1 < p) \<and>
     (\<lceil>(of_nat n :: rat) / of_int l\<rceil> - 1) * l < int n \<and>
     int n \<le> \<lceil>(of_nat n :: rat) / of_int l\<rceil> * l \<and>
     hasNextPage (paginate page limit n) = (p * l < int n)"
proof -
  have one: "(1 < (of_int p :: rat)) = (1 < p)"
    using of_int_less_iff [of 1 p, where ?'a = rat] by simp
  have "hasPrevPage (paginate page limit n) = (1 < p)"
    using assms one by (simp add: paginate_def Let_def js_less_def)
  moreover have "totalPages (paginate page limit n) =
      Finite (of_int \<lceil>(of_nat n :: rat) / of_int l\<rceil>)"
    using assms by (simp add: paginate_def Let_def js_divide_def Math_ceil_def)
  moreover have "hasNextPage (paginate page limit n) = (p < \<lceil>(of_nat n :: rat) / of_int l\<rceil>)"
    using assms by (simp add: paginate_def Let_def js_divide_def Math_ceil_def js_less_def)
  ultimately show ?thesis
    using ceiling_div_bounds [OF assms(3), of n] less_ceiling_div [OF assms(3), of p n]
    by simp
qed

text \<open>The pagination object for a limit of zero: the division is by zero.\<close>

lemma paginate_zero_limit:
  assumes "as_Number page = Finite x" and "as_Number limit = Finite 0"
  shows "totalPages (paginate page limit n) = (if n = 0 then NaN else Infinity) \<and>
     hasNextPage (paginate page limit n) = (n \<noteq> 0) \<and>
     hasPrevPage (paginate page limit n) = (1 < x)"
  using assms by (simp add: paginate_def Let_def js_divide_def Math_ceil_def js_less_def)

lemma paginate_fields:
  "totalRecipes (paginate page limit n) = n \<and>
   currentPage (paginate page limit n) = as_parseInt page \<and>
   totalPages (paginate page limit n) =
     Math_ceil (js_divide (Finite (of_nat n)) (as_Number limit)) \<and>
   hasNextPage (paginate page limit n) =
     js_less (as_Number page) (totalPages (paginate page limit n)) \<and>
   hasPrevPage (paginate page limit n) = js_less (Finite 1) (as_Number page)"
  by (simp add: paginate_def Let_def)

lemma getRecipes_pagination:
  "getRecipes regex s q = Inr res \<Longrightarrow> search_regex regex q = Some re \<Longrightarrow>
     pagination res =
       paginate (case q_page q of None \<Rightarrow> the_number 1 | Some p \<Rightarrow> p)
         (case q_limit q of None \<Rightarrow> the_number 12 | Some l \<Rightarrow> l)
         (length (filter (matches_filter re q) (Recipe_docs s)))"
  by (auto simp: getRecipes_def Let_def split: sum.splits if_splits)

lemma getUserRecipes_pagination:
  "getUserRecipes s caller pg lm = Inr res \<Longrightarrow>
     pagination res =
       paginate (case pg of None \<Rightarrow> the_number 1 | Some p \<Rightarrow> p)
         (case lm of None \<Rightarrow> the_number 12 | Some l \<Rightarrow> l)
         (length (filter (\<lambda>doc. author doc = caller) (Recipe_docs s)))"
  by (auto simp: getUserRecipes_def Let_def split: sum.splits)

lemma set_sort_docs: "set (sort_docs path d docs) = set docs"
  by (simp add: sort_docs_def)

lemma skip_limit_subset: "skip_limit k n docs = Inr page \<Longrightarrow> set page \<subseteq> set docs"
  by (auto simp: skip_limit_def Let_def split: jsnum.splits option.splits if_splits
      dest: in_set_takeD in_set_dropD)





lemma getRecipes_subset:
  assumes "getRecipes regex s q = Inr res"
  shows "\<exists>re. set (recipes res) \<subseteq> {doc \<in> set (Recipe_docs s). matches_filter re q doc}"
proof -
  obtain re k n path d docs where "search_regex regex q = Some re"
    and "skip_limit k n (sort_docs path d (filter (matches_filter re q) (Recipe_docs s))) = Inr docs"
    and "recipes res = docs"
    using assms by (auto simp: getRecipes_def Let_def split: option.splits sum.splits if_splits)
  then have "set (recipes res) \<subseteq> {doc \<in> set (Recipe_docs s). matches_filter re q doc}"
    using skip_limit_subset set_sort_docs by fastforce
  then show ?thesis ..
qed



lemmas listing_eval =
  getRecipes_def getUserRecipes_def no_query_def search_regex_def the_number_def
  Let_def three_store_def pasta_store_def matches_filter_def exact_def
  pasta_def salad_def soup_def skip_limit_def sort_docs_def sort_key_of_def paginate_def
  js_divide_def js_times_def js_minus_def Math_ceil_def js_less_def less_eq_prod_def id_defs

section \<open>Lemmas about ratings\<close>

lemma findIndex_Some:
  "findIndex p xs = Some k \<Longrightarrow> k < length xs \<and> p (xs ! k) \<and> (\<forall>j<k. \<not> p (xs ! j))"
proof (induction xs arbitrary: k)
  case Nil
  then show ?case by simp
next
  case (Cons x xs)
  show ?case
  proof (cases "p x")
    case True
    then show ?thesis using Cons.prems by simp
  next
    case False
    then obtain k' where k': "findIndex p xs = Some k'" "k = Suc k'"
      using Cons.prems by auto
    then show ?thesis using Cons.IH [OF k'(1)] False by (auto simp: less_Suc_eq_0_disj)
  qed
qed

lemma findIndex_None: "(findIndex p xs = None) = (\<forall>x\<in>set xs. \<not> p x)"
  by (induction xs) auto

lemma filter_update_first:
  "findIndex p xs = Some k \<Longrightarrow> p e \<Longrightarrow> filter p (xs[k := e]) = e # tl (filter p xs)"
proof (induction xs arbitrary: k)
  case Nil
  then show ?case by simp
next
  case (Cons x xs)
  show ?case
  proof (cases "p x")
    case True
    then show ?thesis using Cons.prems by simp
  next
    case False
    then obtain k' where k': "findIndex p xs = Some k'" "k = Suc k'"
      using Cons.prems by auto
    then show ?thesis using Cons.IH [OF k'(1) Cons.prems(2)] False by simp
  qed
qed

lemma filter_update_rest:
  "findIndex p xs = Some k \<Longrightarrow> p e \<Longrightarrow>
     filter (\<lambda>x. \<not> p x) (xs[k := e]) = filter (\<lambda>x. \<not> p x) xs"
proof (induction xs arbitrary: k)
  case Nil
  then show ?case by simp
next
  case (Cons x xs)
  show ?case
  proof (cases "p x")
    case True
    then show ?thesis using Cons.prems by simp
  next
    case False
    then obtain k' where k': "findIndex p xs = Some k'" "k = Suc k'"
      using Cons.prems by auto
    then show ?thesis using Cons.IH [OF k'(1) Cons.prems(2)] False by simp
  qed
qed

lemma upsert_rating_own:
  assumes "user e = caller"
  shows "filter (\<lambda>r. user r = caller) (upsert_rating caller e rs) =
           e # tl (filter (\<lambda>r. user r = caller) rs)"
proof (cases "findIndex (\<lambda>r. user r = caller) rs")
  case None
  then have "filter (\<lambda>r. user r = caller) rs = []"
    by (simp add: findIndex_None filter_empty_conv)
  then show ?thesis using None assms by (simp add: upsert_rating_def)
next
  case (Some k)
  then show ?thesis using assms by (simp add: upsert_rating_def filter_update_first)
qed

lemma upsert_rating_others:
  assumes "user e = caller"
  shows "filter (\<lambda>r. user r \<noteq> caller) (upsert_rating caller e rs) =
           filter (\<lambda>r. user r \<noteq> caller) rs"
proof (cases "findIndex (\<lambda>r. user r = caller) rs")
  case None
  then show ?thesis using assms by (simp add: upsert_rating_def)
next
  case (Some k)
  then show ?thesis
    using assms filter_update_rest [of "\<lambda>r. user r = caller" rs k e]
    by (simp add: upsert_rating_def)
qed

lemma upsert_rating_cases:
  "(case findIndex (\<lambda>r. user r = caller) rs of
      Some k \<Rightarrow> k < length rs \<and> user (rs ! k) = caller \<and> upsert_rating caller e rs = rs[k := e]
    | None \<Rightarrow> list_all (\<lambda>r. user r \<noteq> caller) rs \<and> upsert_rating caller e rs = rs @ [e])"
proof (cases "findIndex (\<lambda>r. user r = caller) rs")
  case None
  then have "\<forall>x\<in>set rs. user x \<noteq> caller" by (simp add: findIndex_None)
  then show ?thesis using None by (simp add: upsert_rating_def list_all_iff)
next
  case (Some k)
  then show ?thesis using findIndex_Some [OF Some] by (simp add: upsert_rating_def)
qed

lemma upsert_rating_length_again:
  assumes "user e = caller" "user e' = caller"
  shows "length (upsert_rating caller e' (upsert_rating caller e rs)) =
         length (upsert_rating caller e rs)"
proof -
  have "filter (\<lambda>r. user r = caller) (upsert_rating caller e rs) \<noteq> []"
    using assms(1) by (simp add: upsert_rating_own)
  then have "findIndex (\<lambda>r. user r = caller) (upsert_rating caller e rs) \<noteq> None"
    by (simp add: findIndex_None filter_empty_conv)
  then show ?thesis by (auto simp: upsert_rating_def [of caller e'])
qed

lemma valid_ratings_upsert:
  assumes "valid_ratings rs" and "1 \<le> rating e" "rating e \<le> 5" "length (comment e) \<le> 200"
  shows "valid_ratings (upsert_rating caller e rs)"
  using assms
  by (auto simp: valid_ratings_def upsert_rating_def list_all_iff split: option.splits
      dest!: set_update_subset_insert [THEN subsetD])

lemma floor_numeral_div_rat:
  "\<lfloor>(numeral a :: rat) / numeral b\<rfloor> = numeral a div numeral b"
  using floor_divide_of_int_eq [of "numeral a" "numeral b", where ?'a = rat] by simp

lemma foldl_rating_sum:
  "foldl (\<lambda>sum r. sum + rating r) a rs = a + sum_list (map rating rs)"
  by (induction rs arbitrary: a) simp_all

text \<open>The hook computes what the spec's words say.\<close>

lemma calculateAverageRating_eq:
  "calculateAverageRating doc =
     doc\<lparr>averageRating := spec_mean_rating (ratings doc), totalRatings := length (ratings doc)\<rparr>"
  by (simp add: calculateAverageRating_def spec_mean_rating_def
      round_to_1_decimal_def Math_round_def foldl_rating_sum Let_def)

lemma calculateAverageRating_consistent: "aggregate_consistent (calculateAverageRating doc)"
  by (simp add: aggregate_consistent_def calculateAverageRating_eq)

lemma sum_rating_bounds:
  "valid_ratings rs \<Longrightarrow>
     int (length rs) \<le> sum_list (map rating rs) \<and> sum_list (map rating rs) \<le> 5 * int (length rs)"
  by (induction rs) (auto simp: valid_ratings_def)

lemma spec_mean_rating_bounds:
  assumes "valid_ratings rs"
  shows "0 \<le> spec_mean_rating rs \<and> spec_mean_rating rs \<le> 5"
proof (cases "rs = []")
  case True
  then show ?thesis by (simp add: spec_mean_rating_def)
next
  case False
  let ?t = "sum_list (map rating rs)"
  let ?x = "(of_int ?t :: rat) / of_nat (length rs)"
  have len: "(0::rat) < of_nat (length rs)" using False by simp
  have b: "int (length rs) \<le> ?t" "?t \<le> 5 * int (length rs)"
    using sum_rating_bounds [OF assms] by simp_all
  have "(of_int (int (length rs)) :: rat) \<le> of_int ?t" using b(1) by (simp only: of_int_le_iff)
  then have lo: "1 \<le> ?x" using len by (simp add: pos_le_divide_eq)
  have "(of_int ?t :: rat) \<le> of_int (5 * int (length rs))" using b(2) by (simp only: of_int_le_iff)
  then have hi: "?x \<le> 5" using len by (simp add: pos_divide_le_eq)
  have "(of_int 10 :: rat) \<le> ?x * 10 + 1 / 2" using lo by simp
  then have f1: "10 \<le> \<lfloor>?x * 10 + 1 / 2\<rfloor>" by (simp only: le_floor_iff)
  have "?x * 10 + 1 / 2 < of_int 51" using hi by simp
  then have "\<lfloor>?x * 10 + 1 / 2\<rfloor> < 51" by (simp only: floor_less_iff)
  then have f2: "\<lfloor>?x * 10 + 1 / 2\<rfloor> \<le> 50" by simp
  have "(0::rat) \<le> of_int \<lfloor>?x * 10 + 1 / 2\<rfloor> / 10" using f1 by simp
  moreover have "(of_int \<lfloor>?x * 10 + 1 / 2\<rfloor> :: rat) \<le> of_int 50"
    using f2 by (simp only: of_int_le_iff)
  then have "(of_int \<lfloor>?x * 10 + 1 / 2\<rfloor> :: rat) / 10 \<le> 5" by simp
  ultimately show ?thesis using False by (simp add: spec_mean_rating_def round_to_1_decimal_def)
qed

lemma save_recipe_Inr:
  "validate doc \<Longrightarrow>
     save_recipe False now s doc =
       Inr ((calculateAverageRating doc)\<lparr>updatedAt := now\<rparr>,
            s\<lparr>Recipe_docs := replaceById recipe_id (Recipe_docs s)
                 ((calculateAverageRating doc)\<lparr>updatedAt := now\<rparr>)\<rparr>)"
  by (simp add: save_recipe_def Let_def)

lemma validate_saved:
  assumes "validate doc"
  shows "validate ((calculateAverageRating doc)\<lparr>updatedAt := now\<rparr>)"
proof -
  have "valid_ratings (ratings doc)" using assms by (simp add: validate_def)
  then have "valid_averageRating (spec_mean_rating (ratings doc))"
    using spec_mean_rating_bounds by (simp add: valid_averageRating_def)
  then show ?thesis
    using assms by (simp add: validate_def calculateAverageRating_eq)
qed

lemma rateRecipe_valid:
  assumes cast: "castObjectId t = Some i"
      and found: "findById recipe_id (Recipe_docs s) i = Some recipe"
      and valid: "validate recipe"
      and n: "1 \<le> n" "n \<le> 5" "length (comment (rating_object caller n c)) \<le> 200"
  shows "\<exists>doc s'. rateRecipe now s caller t (Some n) c = (Inr (toJSON doc), s') \<and>
           findById recipe_id (Recipe_docs s') i = Some doc \<and> validate doc \<and>
           aggregate_consistent doc \<and>
           ratings doc = upsert_rating caller (rating_object caller n c) (ratings recipe)"
proof -
  let ?e = "rating_object caller n c"
  let ?r = "recipe\<lparr>ratings := upsert_rating caller ?e (ratings recipe)\<rparr>"
  let ?doc = "(calculateAverageRating ?r)\<lparr>updatedAt := now\<rparr>"
  let ?s' = "s\<lparr>Recipe_docs := replaceById recipe_id (Recipe_docs s) ?doc\<rparr>"
  have e: "rating ?e = n" by (simp add: rating_object_def)
  have "valid_ratings (ratings recipe)" using valid by (simp add: validate_def)
  then have "valid_ratings (upsert_rating caller ?e (ratings recipe))"
    using n e by (simp add: valid_ratings_upsert)
  then have v: "validate ?r" using valid by (simp add: validate_def)
  have id: "recipe_id ?doc = i"
    using findById_key [OF found] by (simp add: calculateAverageRating_eq)
  have "rateRecipe now s caller t (Some n) c = (Inr (toJSON ?doc), ?s')"
    using cast found save_recipe_Inr [OF v, of now s] by (simp add: rateRecipe_def Let_def)
  moreover have "findById recipe_id (Recipe_docs ?s') i = Some ?doc"
    using findById_replaceById [of recipe_id "Recipe_docs s" ?doc] found id by simp
  moreover have "validate ?doc" using v by (rule validate_saved)
  moreover have "aggregate_consistent ?doc"
    by (simp add: aggregate_consistent_def calculateAverageRating_eq)
  moreover have "ratings ?doc = upsert_rating caller ?e (ratings recipe)"
    by (simp add: calculateAverageRating_eq)
  ultimately show ?thesis by blast
qed


section \<open>Authorization of update and delete\<close>

text \<open>
  C5. For an existing recipe, named by any route text that casts to its id, and a caller
  whose id differs from the recipe's author, \<open>updateRecipe\<close> and \<open>deleteRecipe\<close> reply
  Forbidden (HTTP 403) whatever the body, the uploaded file and the decoders are, and
  leave the store as it was: the author check comes before the body is read.
\<close>

theorem non_author_is_forbidden:
  assumes "castObjectId t = Some i"
      and "findById recipe_id (Recipe_docs s) i = Some recipe"
      and "author recipe \<noteq> caller"
  shows "updateRecipe JSON now s caller t b upload = (Inl Forbidden, s) \<and>
         deleteRecipe s caller t = (Inl Forbidden, s) \<and>
         http_status Forbidden = 403"
  using assms by (simp add: updateRecipe_def deleteRecipe_def)

theorem non_author_is_forbidden_witness:
  "castObjectId pasta_upper = Some pasta_id \<and>
   findById recipe_id (Recipe_docs pasta_store) pasta_id = Some pasta \<and> author pasta \<noteq> bob \<and>
   updateRecipe demo_json 2000 pasta_store bob pasta_upper (no_body\<lparr>b_title := Valid ''Mine''\<rparr>) None
     = (Inl Forbidden, pasta_store) \<and>
   deleteRecipe pasta_store bob pasta_upper = (Inl Forbidden, pasta_store)"
proof -
  have c: "castObjectId pasta_upper = Some pasta_id"
    by (simp add: id_defs)
  have f: "findById recipe_id (Recipe_docs pasta_store) pasta_id = Some pasta"
    by (simp add: findById_def pasta_store_def pasta_def)
  have a: "author pasta \<noteq> bob" by (simp add: pasta_def id_defs)
  show ?thesis
    using c f a
      non_author_is_forbidden [OF c f a, of demo_json 2000 "no_body\<lparr>b_title := Valid ''Mine''\<rparr>" None]
    by simp
qed

section \<open>The virtual \<open>totalTime\<close>\<close>

text \<open>
  C8. The serialised recipe reads \<open>totalTime\<close> as \<open>cookingTime.prep + cookingTime.cook\<close>.
  The stored document has no such field: the serialised form is the stored document and,
  beside it, the computed value, so a changed \<open>cookingTime\<close> is read back as the new sum.
  A recipe that \<open>createRecipe\<close> makes from a body with cookingTime \<open>c\<close> is returned
  with \<open>totalTime = prep c + cook c\<close>; for \<open>{prep: 10, cook: 20}\<close> that is 30.
\<close>

theorem totalTime_is_computed:
  "view_totalTime (toJSON doc) = prep (cookingTime doc) + cook (cookingTime doc) \<and>
   recipe.truncate (toJSON doc) = doc \<and>
   view_totalTime (toJSON (doc\<lparr>cookingTime := c\<rparr>)) = prep c + cook c \<and>
   (createRecipe JSON fresh now s caller b upload = (Inr view, s') \<and>
      b_cookingTime b = Plain (Valid c') \<longrightarrow> view_totalTime view = prep c' + cook c')"
proof -
  have "recipe.truncate (toJSON doc) = doc"
    by (simp add: toJSON_def recipe.truncate_def recipe.extend_def)
  then show ?thesis
    using createRecipe_cookingTime [of JSON fresh now s caller b upload view "s'" "c'"]
    by (simp add: view_totalTime_toJSON)
qed

theorem totalTime_is_computed_witness:
  "createRecipe demo_json pasta_id 1000 empty_store ann pasta_body (Some ''p.png'') =
     (Inr (toJSON pasta), \<lparr>Recipe_docs = [pasta], User_docs = []\<rparr>) \<and>
   b_cookingTime pasta_body = Plain (Valid \<lparr>prep = 10, cook = 20\<rparr>) \<and>
   view_totalTime (toJSON pasta) = 30"
  using totalTime_is_computed [of pasta undefined demo_json pasta_id 1000 empty_store ann
      pasta_body "Some ''p.png''" "toJSON pasta" "\<lparr>Recipe_docs = [pasta], User_docs = []\<rparr>"
      "\<lparr>prep = 10, cook = 20\<rparr>"]
    createRecipe_pasta
  by (simp add: pasta_body_def)

section \<open>Creating without an uploaded image\<close>

text \<open>
  C9, as the claim states it, fails where a structured path arrives as text that
  \<^verbatim>\<open>JSON.parse\<close> rejects: the handler throws before it builds the recipe, and the
  error is the SyntaxError, not a validation error.
\<close>

theorem createRecipe_malformed_text_counterexample:
  "createRecipe demo_json pasta_id 1000 empty_store ann
       (pasta_body\<lparr>b_ingredients := Text ''{''\<rparr>) None
     = (Inl SyntaxError, empty_store)"
  by (simp add: createRecipe_def parsed_def demo_json_def decode_only_def pasta_body_def)

text \<open>
  C9, amended. A create request without an uploaded file never succeeds and writes
  nothing. When the body decodes, the recipe is built with the empty string as its image,
  the required-image validator rejects it and the reply is the validation error; when it
  does not decode, the reply is the SyntaxError of \<^verbatim>\<open>JSON.parse\<close>. No document with an
  empty image passes \<open>save\<close>.
\<close>

theorem createRecipe_without_file_fails:
  "createRecipe JSON fresh now s caller b None =
     (Inl (if texts_decode JSON b then ValidationError else SyntaxError), s) \<and>
   save_recipe isNew now s (doc\<lparr>image := []\<rparr>) = Inl ValidationError"
proof (cases "texts_decode JSON b")
  case True
  then obtain v1 v2 v3 v4 v5 where
    "parsed (parse_ingredients JSON) (b_ingredients b) = Inr v1"
    "parsed (parse_instructions JSON) (b_instructions b) = Inr v2"
    "parsed (parse_tags JSON) (b_tags b) = Inr v3"
    "parsed (parse_nutritionalInfo JSON) (b_nutritionalInfo b) = Inr v4"
    "parsed (parse_cookingTime JSON) (b_cookingTime b) = Inr v5"
    unfolding texts_decode_def by (meson parsed_Inr)
  then show ?thesis
    using True
    by (auto simp: createRecipe_def Let_def save_recipe_no_image dest!: new_Recipe_image
        split: option.splits)
next
  case False
  then show ?thesis
    unfolding texts_decode_def createRecipe_def
    by (auto simp: parsed_Inl save_recipe_no_image dest: parsed_error split: sum.splits)
qed

theorem createRecipe_without_file_fails_witness:
  "texts_decode demo_json pasta_body \<and>
   createRecipe demo_json pasta_id 1000 empty_store ann pasta_body None =
     (Inl ValidationError, empty_store)"
proof -
  have d: "texts_decode demo_json pasta_body"
    by (simp add: texts_decode_def decodes_def pasta_body_def)
  show ?thesis
    using d createRecipe_without_file_fails [of demo_json pasta_id 1000 empty_store ann pasta_body]
    by simp
qed

section \<open>Favorites\<close>

text \<open>
  What \<open>removeFromFavorites\<close> does for every route text: for a caller with a user
  document it succeeds and stores the favorites without the entries whose
  \<^verbatim>\<open>toString()\<close> is the text, the other entries in their order; recipes are not
  touched. If no entry is written as the text the store is unchanged, and a second
  removal succeeds and changes nothing. For the text \<^verbatim>\<open>toString()\<close> gives of an id,
  the entries removed are the occurrences of that id.
\<close>

lemma removeFromFavorites_by_text:
  assumes "findById user_id (User_docs s) caller = Some u"
  shows "\<exists>s'. removeFromFavorites s caller t = (Inr (), s') \<and>
           findById user_id (User_docs s') caller =
             Some (u\<lparr>favoriteRecipes := filter (\<lambda>x. toString x \<noteq> t) (favoriteRecipes u)\<rparr>) \<and>
           t \<notin> set (map toString (filter (\<lambda>x. toString x \<noteq> t) (favoriteRecipes u))) \<and>
           (\<forall>i. toString i = t \<longrightarrow>
              filter (\<lambda>x. toString x \<noteq> t) (favoriteRecipes u) =
                filter (\<lambda>x. x \<noteq> i) (favoriteRecipes u) \<and>
              i \<notin> set (filter (\<lambda>x. toString x \<noteq> t) (favoriteRecipes u))) \<and>
           Recipe_docs s' = Recipe_docs s \<and>
           (t \<notin> set (map toString (favoriteRecipes u)) \<longrightarrow> s' = s) \<and>
           removeFromFavorites s' caller t = (Inr (), s')"
proof -
  let ?keep = "\<lambda>x. toString x \<noteq> t"
  let ?u' = "u\<lparr>favoriteRecipes := filter ?keep (favoriteRecipes u)\<rparr>"
  let ?s' = "save_user s ?u'"
  have k: "user_id u = caller" using assms by (rule findById_key)
  have r: "removeFromFavorites s caller t = (Inr (), ?s')"
    using assms by (simp add: removeFromFavorites_def)
  have f: "findById user_id (User_docs ?s') caller = Some ?u'"
    using findById_replaceById[of user_id "User_docs s" ?u'] assms k
    by (simp add: save_user_def)
  have gone: "t \<notin> set (map toString (filter ?keep (favoriteRecipes u)))" by auto
  have ids: "filter ?keep (favoriteRecipes u) = filter (\<lambda>x. x \<noteq> i) (favoriteRecipes u) \<and>
      i \<notin> set (filter ?keep (favoriteRecipes u))" if "toString i = t" for i
  proof -
    have "(toString x \<noteq> t) = (x \<noteq> i)" for x
      using that toString_inject [of x i] by auto
    then show ?thesis by simp
  qed
  have same: "?s' = s" if "t \<notin> set (map toString (favoriteRecipes u))"
  proof -
    have "filter ?keep (favoriteRecipes u) = favoriteRecipes u"
      using that by (auto intro: filter_True)
    then have "?u' = u" by simp
    then show "?s' = s"
      using replaceById_same[of user_id "User_docs s" u] assms k by (simp add: save_user_def)
  qed
  have "?u'\<lparr>favoriteRecipes := filter ?keep (favoriteRecipes ?u')\<rparr> = ?u'" by simp
  then have again: "removeFromFavorites ?s' caller t = (Inr (), ?s')"
    using f k replaceById_same[of user_id "User_docs ?s'" ?u']
    by (simp add: removeFromFavorites_def save_user_def)
  have docs: "Recipe_docs ?s' = Recipe_docs s" by (simp add: save_user_def)
  show ?thesis using r f gone ids same again docs by blast
qed

text \<open>
  C6. \<open>removeFromFavorites\<close> is to remove every occurrence of the recipe's id from the
  caller's favorites. It compares the \<^verbatim>\<open>toString()\<close> of each entry with the route text
  as it was sent, where \<open>addToFavorites\<close> on the same route casts the text to an id. The
  pasta recipe's id with its letter in upper case is that id to the cast: ann adds the
  recipe to her favorites with this text, and removing it with the very same text
  succeeds and leaves the entry where it is; so it does for bob, who holds the entry
  already. With the letter in lower case the entry is removed.
\<close>

theorem removeFromFavorites_keeps_entry_of_upper_case_text:
  "castObjectId pasta_upper = Some pasta_id \<and> castObjectId pasta_text = Some pasta_id \<and>
   addToFavorites pasta_store ann pasta_upper =
     (Inr (), \<lparr>Recipe_docs = [pasta],
               User_docs = [\<lparr>user_id = ann, favoriteRecipes = [pasta_id]\<rparr>,
                            \<lparr>user_id = bob, favoriteRecipes = [pasta_id]\<rparr>]\<rparr>) \<and>
   removeFromFavorites
       \<lparr>Recipe_docs = [pasta],
        User_docs = [\<lparr>user_id = ann, favoriteRecipes = [pasta_id]\<rparr>,
                     \<lparr>user_id = bob, favoriteRecipes = [pasta_id]\<rparr>]\<rparr> ann pasta_upper =
     (Inr (), \<lparr>Recipe_docs = [pasta],
               User_docs = [\<lparr>user_id = ann, favoriteRecipes = [pasta_id]\<rparr>,
                            \<lparr>user_id = bob, favoriteRecipes = [pasta_id]\<rparr>]\<rparr>) \<and>
   removeFromFavorites
       \<lparr>Recipe_docs = [pasta],
        User_docs = [\<lparr>user_id = ann, favoriteRecipes = [pasta_id]\<rparr>,
                     \<lparr>user_id = bob, favoriteRecipes = [pasta_id]\<rparr>]\<rparr> ann pasta_text =
     (Inr (), pasta_store) \<and>
   findById user_id (User_docs pasta_store) bob =
     Some \<lparr>user_id = bob, favoriteRecipes = [pasta_id]\<rparr> \<and>
   removeFromFavorites pasta_store bob pasta_upper = (Inr (), pasta_store) \<and>
   removeFromFavorites pasta_store bob pasta_text =
     (Inr (), \<lparr>Recipe_docs = [pasta],
               User_docs = [\<lparr>user_id = ann, favoriteRecipes = []\<rparr>,
                            \<lparr>user_id = bob, favoriteRecipes = []\<rparr>]\<rparr>)"
  by (simp add: addToFavorites_def removeFromFavorites_def save_user_def findById_def
      pasta_store_def pasta_def id_defs)




text \<open>
  The text comparison does not find the pasta recipe's id among bob's favorites when the
  route text has its letter in upper case, and the id is appended a second time.
\<close>

lemma addToFavorites_upper_case_text_appends_again:
  "favorites_distinct pasta_store \<and> \<not> spelled_as_written pasta_upper \<and>
   addToFavorites pasta_store bob pasta_upper =
     (Inr (), \<lparr>Recipe_docs = [pasta],
               User_docs = [\<lparr>user_id = ann, favoriteRecipes = []\<rparr>,
                            \<lparr>user_id = bob, favoriteRecipes = [pasta_id, pasta_id]\<rparr>]\<rparr>)"
  by (simp add: addToFavorites_def save_user_def findById_def favorites_distinct_def
      spelled_as_written_def pasta_store_def pasta_def id_defs)

section \<open>Listings\<close>

text \<open>
  C3. A listing that \<open>getRecipes\<close> returns carries, for the \<open>page\<close> and the \<open>limit\<close>
  of the query (1 and 12 where the query has none) and the number \<open>total\<close> of stored
  documents that match the filter: \<open>totalRecipes = total\<close>, \<open>totalPages\<close> the
  \<^verbatim>\<open>Math.ceil\<close> of \<open>total / limit\<close>, \<open>hasNextPage = (page < totalPages)\<close> and
  \<open>hasPrevPage = (page > 1)\<close>, in the arithmetic of the language on what the texts
  coerce to. For an integer page and an integer limit above 0 that is the ceiling of
  the quotient, the least number of pages of \<open>limit\<close> documents that hold them all, and
  \<open>hasNextPage\<close> says that documents remain beyond the first \<open>page * limit\<close>; for a limit
  of 0 the quotient is Infinity, or NaN when nothing matches. The same holds for the
  listing of \<open>getUserRecipes\<close> with the caller's recipes as the matching documents.
\<close>

theorem pagination_metadata:
  "(getRecipes regex s q = Inr res \<and> search_regex regex q = Some re \<longrightarrow>
      (let total = length (filter (matches_filter re q) (Recipe_docs s));
           page = (case q_page q of None \<Rightarrow> the_number 1 | Some p \<Rightarrow> p);
           limit = (case q_limit q of None \<Rightarrow> the_number 12 | Some l \<Rightarrow> l);
           m = pagination res
       in totalRecipes m = total \<and>
          totalPages m = Math_ceil (js_divide (Finite (of_nat total)) (as_Number limit)) \<and>
          hasNextPage m = js_less (as_Number page) (totalPages m) \<and>
          hasPrevPage m = js_less (Finite 1) (as_Number page) \<and>
          (\<forall>p l. as_Number page = Finite (of_int p) \<and> as_Number limit = Finite (of_int l) \<and> 0 < l \<longrightarrow>
             totalPages m = Finite (of_int \<lceil>(of_nat total :: rat) / of_int l\<rceil>) \<and>
             hasNextPage m = (p < \<lceil>(of_nat total :: rat) / of_int l\<rceil>) \<and>
             hasPrevPage m = (1 < p) \<and>
             (\<lceil>(of_nat total :: rat) / of_int l\<rceil> - 1) * l < int total \<and>
             int total \<le> \<lceil>(of_nat total :: rat) / of_int l\<rceil> * l \<and>
             hasNextPage m = (p * l < int total)) \<and>
          (\<forall>x. as_Number page = Finite x \<and> as_Number limit = Finite 0 \<longrightarrow>
             totalPages m = (if total = 0 then NaN else Infinity) \<and>
             hasNextPage m = (total \<noteq> 0) \<and> hasPrevPage m = (1 < x)))) \<and>
   (getUserRecipes s caller pg lm = Inr res' \<longrightarrow>
      (let total = length (filter (\<lambda>doc. author doc = caller) (Recipe_docs s));
           page = (case pg of None \<Rightarrow> the_number 1 | Some p \<Rightarrow> p);
           limit = (case lm of None \<Rightarrow> the_number 12 | Some l \<Rightarrow> l);
           m = pagination res'
       in totalRecipes m = total \<and>
          totalPages m = Math_ceil (js_divide (Finite (of_nat total)) (as_Number limit)) \<and>
          hasNextPage m = js_less (as_Number page) (totalPages m) \<and>
          hasPrevPage m = js_less (Finite 1) (as_Number page) \<and>
          (\<forall>p l. as_Number page = Finite (of_int p) \<and> as_Number limit = Finite (of_int l) \<and> 0 < l \<longrightarrow>
             totalPages m = Finite (of_int \<lceil>(of_nat total :: rat) / of_int l\<rceil>) \<and>
             hasNextPage m = (p < \<lceil>(of_nat total :: rat) / of_int l\<rceil>) \<and>
             hasPrevPage m = (1 < p) \<and>
             (\<lceil>(of_nat total :: rat) / of_int l\<rceil> - 1) * l < int total \<and>
             int total \<le> \<lceil>(of_nat total :: rat) / of_int l\<rceil> * l \<and>
             hasNextPage m = (p * l < int total)) \<and>
          (\<forall>x. as_Number page = Finite x \<and> as_Number limit = Finite 0 \<longrightarrow>
             totalPages m = (if total = 0 then NaN else Infinity) \<and>
             hasNextPage m = (total \<noteq> 0) \<and> hasPrevPage m = (1 < x))))"
proof -
  have meta: "totalRecipes (paginate page limit n) = n \<and>
      totalPages (paginate page limit n) =
        Math_ceil (js_divide (Finite (of_nat n)) (as_Number limit)) \<and>
      hasNextPage (paginate page limit n) =
        js_less (as_Number page) (totalPages (paginate page limit n)) \<and>
      hasPrevPage (paginate page limit n) = js_less (Finite 1) (as_Number page) \<and>
      (\<forall>p l. as_Number page = Finite (of_int p) \<and> as_Number limit = Finite (of_int l) \<and> 0 < l \<longrightarrow>
         totalPages (paginate page limit n) = Finite (of_int \<lceil>(of_nat n :: rat) / of_int l\<rceil>) \<and>
         hasNextPage (paginate page limit n) = (p < \<lceil>(of_nat n :: rat) / of_int l\<rceil>) \<and>
         hasPrevPage (paginate page limit n) = (1 < p) \<and>
         (\<lceil>(of_nat n :: rat) / of_int l\<rceil> - 1) * l < int n \<and>
         int n \<le> \<lceil>(of_nat n :: rat) / of_int l\<rceil> * l \<and>
         hasNextPage (paginate page limit n) = (p * l < int n)) \<and>
      (\<forall>x. as_Number page = Finite x \<and> as_Number limit = Finite 0 \<longrightarrow>
         totalPages (paginate page limit n) = (if n = 0 then NaN else Infinity) \<and>
         hasNextPage (paginate page limit n) = (n \<noteq> 0) \<and>
         hasPrevPage (paginate page limit n) = (1 < x))"
    for page limit n
    using paginate_fields [of page limit n] paginate_integers [of page _ limit _ n]
      paginate_zero_limit [of page _ limit n]
    by blast
  have 1: "(let total = length (filter (matches_filter re q) (Recipe_docs s));
           page = (case q_page q of None \<Rightarrow> the_number 1 | Some p \<Rightarrow> p);
           limit = (case q_limit q of None \<Rightarrow> the_number 12 | Some l \<Rightarrow> l);
           m = pagination res
       in totalRecipes m = total \<and>
          totalPages m = Math_ceil (js_divide (Finite (of_nat total)) (as_Number limit)) \<and>
          hasNextPage m = js_less (as_Number page) (totalPages m) \<and>
          hasPrevPage m = js_less (Finite 1) (as_Number page) \<and>
          (\<forall>p l. as_Number page = Finite (of_int p) \<and> as_Number limit = Finite (of_int l) \<and> 0 < l \<longrightarrow>
             totalPages m = Finite (of_int \<lceil>(of_nat total :: rat) / of_int l\<rceil>) \<and>
             hasNextPage m = (p < \<lceil>(of_nat total :: rat) / of_int l\<rceil>) \<and>
             hasPrevPage m = (1 < p) \<and>
             (\<lceil>(of_nat total :: rat) / of_int l\<rceil> - 1) * l < int total \<and>
             int total \<le> \<lceil>(of_nat total :: rat) / of_int l\<rceil> * l \<and>
             hasNextPage m = (p * l < int total)) \<and>
          (\<forall>x. as_Number page = Finite x \<and> as_Number limit = Finite 0 \<longrightarrow>
             totalPages m = (if total = 0 then NaN else Infinity) \<and>
             hasNextPage m = (total \<noteq> 0) \<and> hasPrevPage m = (1 < x)))"
    if g: "getRecipes regex s q = Inr res" and r: "search_regex regex q = Some re"
    unfolding Let_def getRecipes_pagination [OF g r] by (rule meta)
  have 2: "(let total = length (filter (\<lambda>doc. author doc = caller) (Recipe_docs s));
           page = (case pg of None \<Rightarrow> the_number 1 | Some p \<Rightarrow> p);
           limit = (case lm of None \<Rightarrow> the_number 12 | Some l \<Rightarrow> l);
           m = pagination res'
       in totalRecipes m = total \<and>
          totalPages m = Math_ceil (js_divide (Finite (of_nat total)) (as_Number limit)) \<and>
          hasNextPage m = js_less (as_Number page) (totalPages m) \<and>
          hasPrevPage m = js_less (Finite 1) (as_Number page) \<and>
          (\<forall>p l. as_Number page = Finite (of_int p) \<and> as_Number limit = Finite (of_int l) \<and> 0 < l \<longrightarrow>
             totalPages m = Finite (of_int \<lceil>(of_nat total :: rat) / of_int l\<rceil>) \<and>
             hasNextPage m = (p < \<lceil>(of_nat total :: rat) / of_int l\<rceil>) \<and>
             hasPrevPage m = (1 < p) \<and>
             (\<lceil>(of_nat total :: rat) / of_int l\<rceil> - 1) * l < int total \<and>
             int total \<le> \<lceil>(of_nat total :: rat) / of_int l\<rceil> * l \<and>
             hasNextPage m = (p * l < int total)) \<and>
          (\<forall>x. as_Number page = Finite x \<and> as_Number limit = Finite 0 \<longrightarrow>
             totalPages m = (if total = 0 then NaN else Infinity) \<and>
             hasNextPage m = (total \<noteq> 0) \<and> hasPrevPage m = (1 < x)))"
    if g: "getUserRecipes s caller pg lm = Inr res'"
    unfolding Let_def getUserRecipes_pagination [OF g] by (rule meta)
  show ?thesis using 1 2 by blast
qed

text \<open>
  Page 2 with one recipe to a page, of the two public recipes: the older of the two, two
  pages, no next page, a previous page. And a limit given as the text \<^verbatim>\<open>1e1\<close>, which is
  10 in the arithmetic and 1 to \<^verbatim>\<open>parseInt\<close>: one recipe is returned and one page counted.
\<close>

theorem pagination_metadata_witness:
  "getRecipes (\<lambda>t. None) three_store
       (no_query\<lparr>q_page := Some (the_number 2), q_limit := Some (the_number 1)\<rparr>) =
     Inr \<lparr>recipes = [pasta],
          pagination = \<lparr>currentPage = Some 2, totalPages = Finite 2, totalRecipes = 2,
                        hasNextPage = False, hasPrevPage = True\<rparr>\<rparr> \<and>
   search_regex (\<lambda>t. None)
       (no_query\<lparr>q_page := Some (the_number 2), q_limit := Some (the_number 1)\<rparr>) = Some None \<and>
   length (filter (matches_filter None
       (no_query\<lparr>q_page := Some (the_number 2), q_limit := Some (the_number 1)\<rparr>))
       (Recipe_docs three_store)) = 2 \<and>
   getRecipes (\<lambda>t. None) three_store
       (no_query\<lparr>q_limit := Some \<lparr>as_Number = Finite 10, as_parseInt = Some 1\<rparr>\<rparr>) =
     Inr \<lparr>recipes = [salad],
          pagination = \<lparr>currentPage = Some 1, totalPages = Finite 1, totalRecipes = 2,
                        hasNextPage = False, hasPrevPage = False\<rparr>\<rparr>"
proof -
  let ?q = "no_query\<lparr>q_page := Some (the_number 2), q_limit := Some (the_number 1)\<rparr>"
  let ?res = "\<lparr>recipes = [pasta],
          pagination = \<lparr>currentPage = Some 2, totalPages = Finite 2, totalRecipes = 2,
                        hasNextPage = False, hasPrevPage = True\<rparr>\<rparr>"
  have g: "getRecipes (\<lambda>t. None) three_store ?q = Inr ?res"
    by (simp add: listing_eval)
  have r: "search_regex (\<lambda>t. None) ?q = Some None"
    by (simp add: search_regex_def no_query_def)
  have n: "length (filter (matches_filter None ?q) (Recipe_docs three_store)) = 2"
    by (simp add: listing_eval)
  have c: "\<lceil>(1::rat) / 5\<rceil> = 1"
    by (rule ceiling_unique) simp_all
  have g': "getRecipes (\<lambda>t. None) three_store
       (no_query\<lparr>q_limit := Some \<lparr>as_Number = Finite 10, as_parseInt = Some 1\<rparr>\<rparr>) =
     Inr \<lparr>recipes = [salad],
          pagination = \<lparr>currentPage = Some 1, totalPages = Finite 1, totalRecipes = 2,
                        hasNextPage = False, hasPrevPage = False\<rparr>\<rparr>"
    by (simp add: listing_eval c)
  show ?thesis
    using g r n g' pagination_metadata [of "\<lambda>t. None" three_store ?q ?res None]
    by simp
qed

text \<open>
  C7. Every recipe that \<open>getRecipes\<close> returns is a stored document with
  \<open>isPublic = true\<close>, and when a maxTime is given, with \<open>prep + cook\<close> at most that
  number (with a maxTime that does not parse to a number nothing is returned). The stored
  recipe with prep 10 and cook 20 is left out for maxTime 25 and returned for maxTime 30.
\<close>

theorem getRecipes_public_within_maxTime:
  "(getRecipes regex s q = Inr res \<longrightarrow>
      list_all (\<lambda>doc. doc \<in> set (Recipe_docs s) \<and> isPublic doc \<and>
        (case q_maxTime q of Absent \<Rightarrow> True | NotANumber \<Rightarrow> False
         | Number m \<Rightarrow> prep (cookingTime doc) + cook (cookingTime doc) \<le> m)) (recipes res)) \<and>
   cookingTime pasta = \<lparr>prep = 10, cook = 20\<rparr> \<and>
   getRecipes regex pasta_store (no_query\<lparr>q_maxTime := Number 25\<rparr>) =
     Inr \<lparr>recipes = [], pagination = paginate (the_number 1) (the_number 12) 0\<rparr> \<and>
   getRecipes regex pasta_store (no_query\<lparr>q_maxTime := Number 30\<rparr>) =
     Inr \<lparr>recipes = [pasta], pagination = paginate (the_number 1) (the_number 12) 1\<rparr>"
proof -
  have "list_all (\<lambda>doc. doc \<in> set (Recipe_docs s) \<and> isPublic doc \<and>
        (case q_maxTime q of Absent \<Rightarrow> True | NotANumber \<Rightarrow> False
         | Number m \<Rightarrow> prep (cookingTime doc) + cook (cookingTime doc) \<le> m)) (recipes res)"
    if "getRecipes regex s q = Inr res"
    using getRecipes_subset [OF that] by (auto simp: list_all_iff matches_filter_def)
  moreover have "getRecipes regex pasta_store (no_query\<lparr>q_maxTime := Number 25\<rparr>) =
     Inr \<lparr>recipes = [], pagination = paginate (the_number 1) (the_number 12) 0\<rparr>"
    by (simp add: getRecipes_def no_query_def search_regex_def the_number_def
      Let_def pasta_store_def matches_filter_def exact_def pasta_def
      skip_limit_def sort_docs_def js_times_def js_minus_def)
  moreover have "getRecipes regex pasta_store (no_query\<lparr>q_maxTime := Number 30\<rparr>) =
     Inr \<lparr>recipes = [pasta], pagination = paginate (the_number 1) (the_number 12) 1\<rparr>"
    by (simp add: getRecipes_def no_query_def search_regex_def the_number_def
      Let_def pasta_store_def matches_filter_def exact_def pasta_def
      skip_limit_def sort_docs_def js_times_def js_minus_def)
  ultimately show ?thesis by (simp add: pasta_def)
qed

theorem getRecipes_public_within_maxTime_witness:
  "getRecipes (\<lambda>t. None) three_store (no_query\<lparr>q_maxTime := Number 10\<rparr>) =
     Inr \<lparr>recipes = [salad], pagination = paginate (the_number 1) (the_number 12) 1\<rparr> \<and>
   isPublic salad \<and> prep (cookingTime salad) + cook (cookingTime salad) \<le> 10 \<and>
   \<not> isPublic soup \<and> \<not> prep (cookingTime pasta) + cook (cookingTime pasta) \<le> 10"
proof -
  let ?q = "no_query\<lparr>q_maxTime := Number 10\<rparr>"
  have g: "getRecipes (\<lambda>t. None) three_store ?q =
     Inr \<lparr>recipes = [salad], pagination = paginate (the_number 1) (the_number 12) 1\<rparr>"
    by (simp add: getRecipes_def no_query_def search_regex_def the_number_def
      Let_def three_store_def matches_filter_def exact_def pasta_def
      salad_def soup_def skip_limit_def sort_docs_def js_times_def js_minus_def)
  show ?thesis
    using g getRecipes_public_within_maxTime [of "\<lambda>t. None" three_store ?q
        "\<lparr>recipes = [salad], pagination = paginate (the_number 1) (the_number 12) 1\<rparr>"]
    by (simp add: pasta_def soup_def salad_def)
qed



section \<open>Ratings\<close>

text \<open>
  C2, as the claim states it for every recipe, fails on a recipe that holds two entries
  of the rater. The schema lets a ratings array hold them, and an update of the author
  stores such an array. \<open>findIndex\<close> gives the first entry only: bob rates the recipe
  5 and then 3, both requests succeed, and the recipe still holds two entries of bob, the
  second with the rating 2 that neither request gave.
\<close>

theorem rateRecipe_second_entry_counterexample:
  "updateRecipe demo_json 2000 pasta_store ann pasta_text
       (no_body\<lparr>b_ratings := Valid [\<lparr>user = bob, rating = 4, comment = []\<rparr>,
                                     \<lparr>user = bob, rating = 2, comment = []\<rparr>]\<rparr>) None =
     (Inr (Some (toJSON twice_pasta)), pasta_store\<lparr>Recipe_docs := [twice_pasta]\<rparr>) \<and>
   validate twice_pasta \<and>
   rateRecipe 3000 (pasta_store\<lparr>Recipe_docs := [twice_pasta]\<rparr>) bob pasta_text (Some 5) None =
     (Inr (toJSON twice_pasta_5), pasta_store\<lparr>Recipe_docs := [twice_pasta_5]\<rparr>) \<and>
   rateRecipe 4000 (pasta_store\<lparr>Recipe_docs := [twice_pasta_5]\<rparr>) bob pasta_text (Some 3) None =
     (Inr (toJSON twice_pasta_3), pasta_store\<lparr>Recipe_docs := [twice_pasta_3]\<rparr>) \<and>
   ratings twice_pasta_3 =
     [\<lparr>user = bob, rating = 3, comment = []\<rparr>, \<lparr>user = bob, rating = 2, comment = []\<rparr>] \<and>
   map user (ratings twice_pasta_3) = [bob, bob]"
proof -
  have m5: "spec_mean_rating [\<lparr>user = u, rating = 5, comment = []\<rparr>,
                              \<lparr>user = u, rating = 2, comment = []\<rparr>] = 7 / 2" for u
    by (simp add: spec_mean_rating_def round_to_1_decimal_def floor_numeral_div_rat)
  have m3: "spec_mean_rating [\<lparr>user = u, rating = 3, comment = []\<rparr>,
                              \<lparr>user = u, rating = 2, comment = []\<rparr>] = 5 / 2" for u
    by (simp add: spec_mean_rating_def round_to_1_decimal_def floor_numeral_div_rat)
  have "updateRecipe demo_json 2000 pasta_store ann pasta_text
       (no_body\<lparr>b_ratings := Valid [\<lparr>user = bob, rating = 4, comment = []\<rparr>,
                                     \<lparr>user = bob, rating = 2, comment = []\<rparr>]\<rparr>) None =
     (Inr (Some (toJSON twice_pasta)), pasta_store\<lparr>Recipe_docs := [twice_pasta]\<rparr>)"
    by (simp add: updateRecipe_def findById_def pasta_store_def pasta_def
        no_body_def update_parsed_def upd_of_slot_def findByIdAndUpdate_def castable_def
        validate_updates_def update_ok_def map_upd_def valid_ratings_def apply_updates_def
        upd_or_def twice_pasta_def Let_def id_defs)
  moreover have "validate twice_pasta"
    by (simp add: valid_defs twice_pasta_def pasta_def)
  moreover have "rateRecipe 3000 (pasta_store\<lparr>Recipe_docs := [twice_pasta]\<rparr>) bob pasta_text
       (Some 5) None =
     (Inr (toJSON twice_pasta_5), pasta_store\<lparr>Recipe_docs := [twice_pasta_5]\<rparr>)"
    by (simp add: rateRecipe_def findById_def pasta_store_def pasta_def
        rating_object_def upsert_rating_def save_recipe_def valid_defs calculateAverageRating_eq
        m5 twice_pasta_def twice_pasta_5_def Let_def no_nutritionalInfo_def id_defs
        numeral_2_eq_2)
  moreover have "rateRecipe 4000 (pasta_store\<lparr>Recipe_docs := [twice_pasta_5]\<rparr>) bob pasta_text
       (Some 3) None =
     (Inr (toJSON twice_pasta_3), pasta_store\<lparr>Recipe_docs := [twice_pasta_3]\<rparr>)"
    by (simp add: rateRecipe_def findById_def pasta_store_def pasta_def
        rating_object_def upsert_rating_def save_recipe_def valid_defs calculateAverageRating_eq
        m3 twice_pasta_5_def twice_pasta_3_def Let_def no_nutritionalInfo_def id_defs
        numeral_2_eq_2)
  moreover have "ratings twice_pasta_3 =
     [\<lparr>user = bob, rating = 3, comment = []\<rparr>, \<lparr>user = bob, rating = 2, comment = []\<rparr>]"
    by (simp add: twice_pasta_3_def)
  moreover have "map user (ratings twice_pasta_3) = [bob, bob]"
    by (simp add: twice_pasta_3_def)
  ultimately show ?thesis by blast
qed

text \<open>
  C2, amended. A stored, valid recipe is rated by a caller with a rating from 1 to 5 and
  a comment of at most 200 characters. The request succeeds and the stored ratings are
  the old ones with the caller's first entry replaced at its index, or, when the caller
  had no entry, with the new entry appended; the entries of other users keep their values
  and order, and ratings with at most one entry per user stay so. A second rating by the
  same caller succeeds too and adds no entry; if the caller had at most one entry to
  begin with, the caller's entries are then exactly the one just written, with the latest
  rating.
\<close>

theorem rateRecipe_upsert:
  assumes cast: "castObjectId t = Some i"
      and found: "findById recipe_id (Recipe_docs s) i = Some recipe"
      and valid: "validate recipe"
      and n: "1 \<le> n" "n \<le> 5" "length (comment (rating_object caller n c)) \<le> 200"
      and m: "1 \<le> m" "m \<le> 5" "length (comment (rating_object caller m c')) \<le> 200"
  shows "\<exists>doc s' doc2 s2.
     rateRecipe now s caller t (Some n) c = (Inr (toJSON doc), s') \<and>
     findById recipe_id (Recipe_docs s') i = Some doc \<and>
     (case findIndex (\<lambda>r. user r = caller) (ratings recipe) of
        Some k \<Rightarrow> k < length (ratings recipe) \<and> user (ratings recipe ! k) = caller \<and>
          ratings doc = (ratings recipe)[k := rating_object caller n c]
      | None \<Rightarrow> list_all (\<lambda>r. user r \<noteq> caller) (ratings recipe) \<and>
          ratings doc = ratings recipe @ [rating_object caller n c]) \<and>
     filter (\<lambda>r. user r \<noteq> caller) (ratings doc) =
       filter (\<lambda>r. user r \<noteq> caller) (ratings recipe) \<and>
     ((\<forall>v. length (filter (\<lambda>r. user r = v) (ratings recipe)) \<le> 1) \<longrightarrow>
        (\<forall>v. length (filter (\<lambda>r. user r = v) (ratings doc)) \<le> 1)) \<and>
     rateRecipe now' s' caller t (Some m) c' = (Inr (toJSON doc2), s2) \<and>
     findById recipe_id (Recipe_docs s2) i = Some doc2 \<and>
     length (ratings doc2) = length (ratings doc) \<and>
     (length (filter (\<lambda>r. user r = caller) (ratings recipe)) \<le> 1 \<longrightarrow>
        filter (\<lambda>r. user r = caller) (ratings doc2) = [rating_object caller m c'])"
proof -
  let ?own = "\<lambda>r. user r = caller"
  let ?e = "rating_object caller n c"
  let ?e' = "rating_object caller m c'"
  have u: "user ?e = caller" "user ?e' = caller" by (simp_all add: rating_object_def)
  obtain doc s' where 1: "rateRecipe now s caller t (Some n) c = (Inr (toJSON doc), s')"
    and f1: "findById recipe_id (Recipe_docs s') i = Some doc" and v1: "validate doc"
    and r1: "ratings doc = upsert_rating caller ?e (ratings recipe)"
    using rateRecipe_valid [OF cast found valid n] by blast
  obtain doc2 s2 where 2: "rateRecipe now' s' caller t (Some m) c' = (Inr (toJSON doc2), s2)"
    and f2: "findById recipe_id (Recipe_docs s2) i = Some doc2"
    and r2: "ratings doc2 = upsert_rating caller ?e' (ratings doc)"
    using rateRecipe_valid [OF cast f1 v1 m] by blast
  have a: "(case findIndex ?own (ratings recipe) of
        Some k \<Rightarrow> k < length (ratings recipe) \<and> user (ratings recipe ! k) = caller \<and>
          ratings doc = (ratings recipe)[k := ?e]
      | None \<Rightarrow> list_all (\<lambda>r. user r \<noteq> caller) (ratings recipe) \<and>
          ratings doc = ratings recipe @ [?e])"
    unfolding r1 by (rule upsert_rating_cases)
  have b: "filter (\<lambda>r. user r \<noteq> caller) (ratings doc) =
      filter (\<lambda>r. user r \<noteq> caller) (ratings recipe)"
    using r1 u by (simp add: upsert_rating_others)
  have c: "length (ratings doc2) = length (ratings doc)"
    using r1 r2 u by (simp add: upsert_rating_length_again)
  have own2: "filter ?own (ratings doc2) = ?e' # tl (filter ?own (ratings recipe))"
    using r1 r2 u by (simp add: upsert_rating_own)
  have d: "filter ?own (ratings doc2) = [?e']"
    if "length (filter ?own (ratings recipe)) \<le> 1"
  proof -
    have "tl (filter ?own (ratings recipe)) = []"
      using that by (cases "filter ?own (ratings recipe)") simp_all
    then show ?thesis using own2 by simp
  qed
  have k: "\<forall>v. length (filter (\<lambda>r. user r = v) (ratings doc)) \<le> 1"
    if all: "\<forall>v. length (filter (\<lambda>r. user r = v) (ratings recipe)) \<le> 1"
  proof
    fix v
    show "length (filter (\<lambda>r. user r = v) (ratings doc)) \<le> 1"
    proof (cases "v = caller")
      case True
      have "filter ?own (ratings doc) = ?e # tl (filter ?own (ratings recipe))"
        using r1 u by (simp add: upsert_rating_own)
      then show ?thesis using all True by simp
    next
      case False
      have "filter (\<lambda>r. user r = v) (ratings doc) =
          filter (\<lambda>r. user r = v) (filter (\<lambda>r. user r \<noteq> caller) (ratings doc))"
        using False by (auto intro: filter_cong)
      also have "\<dots> = filter (\<lambda>r. user r = v) (filter (\<lambda>r. user r \<noteq> caller) (ratings recipe))"
        by (simp only: b)
      also have "\<dots> = filter (\<lambda>r. user r = v) (ratings recipe)"
        using False by (auto intro: filter_cong)
      finally show ?thesis using all by simp
    qed
  qed
  show ?thesis using 1 f1 a b k 2 f2 c d by blast
qed

text \<open>
  Bob rates the pasta recipe, which has no ratings, through a route text in upper case:
  5 first, then 3 with a comment. His one entry then holds the 3.
\<close>

theorem rateRecipe_upsert_witness:
  "castObjectId pasta_upper = Some pasta_id \<and>
   findById recipe_id (Recipe_docs pasta_store) pasta_id = Some pasta \<and> validate pasta \<and>
   length (filter (\<lambda>r. user r = bob) (ratings pasta)) \<le> 1 \<and>
   (\<exists>doc s' doc2 s2.
      rateRecipe 2000 pasta_store bob pasta_upper (Some 5) None = (Inr (toJSON doc), s') \<and>
      ratings doc = [\<lparr>user = bob, rating = 5, comment = []\<rparr>] \<and>
      rateRecipe 3000 s' bob pasta_upper (Some 3) (Some ''ok'') = (Inr (toJSON doc2), s2) \<and>
      findById recipe_id (Recipe_docs s2) pasta_id = Some doc2 \<and>
      filter (\<lambda>r. user r = bob) (ratings doc2) = [\<lparr>user = bob, rating = 3, comment = ''ok''\<rparr>])"
proof -
  have c: "castObjectId pasta_upper = Some pasta_id" by (simp add: id_defs)
  have f: "findById recipe_id (Recipe_docs pasta_store) pasta_id = Some pasta"
    by (simp add: findById_def pasta_store_def pasta_def)
  have v: "validate pasta"
    by (simp add: valid_defs pasta_def)
  have l: "length (filter (\<lambda>r. user r = bob) (ratings pasta)) \<le> 1"
    by (simp add: pasta_def)
  have r: "ratings pasta = []" by (simp add: pasta_def)
  show ?thesis
    using c f v l
      rateRecipe_upsert [OF c f v, of 5 bob None 3 "Some ''ok''" 2000 3000]
    by (simp add: rating_object_def r) blast
qed

text \<open>
  The writes that go through \<open>save\<close> store the aggregate of the ratings they store:
  \<open>createRecipe\<close> and \<open>rateRecipe\<close> keep every stored recipe consistent, and
  \<open>deleteRecipe\<close> and the favorites handlers write no recipe. Three ratings 5, 4 and 3
  give the average 4 and the count 3.
\<close>

lemma calculateAverageRating_5_4_3:
  "ratings doc = [\<lparr>user = a, rating = 5, comment = x\<rparr>, \<lparr>user = b, rating = 4, comment = y\<rparr>,
                  \<lparr>user = c, rating = 3, comment = z\<rparr>] \<Longrightarrow>
   averageRating (calculateAverageRating doc) = 4 \<and> totalRatings (calculateAverageRating doc) = 3"
  by (simp add: calculateAverageRating_def Math_round_def floor_numeral_div_rat)

lemma save_paths_keep_aggregates:
  assumes "aggregates_consistent s"
  shows "aggregates_consistent (snd (createRecipe JSON fresh now s caller b upload)) \<and>
         aggregates_consistent (snd (rateRecipe now s caller t n c)) \<and>
         aggregates_consistent (snd (deleteRecipe s caller t)) \<and>
         aggregates_consistent (snd (addToFavorites s caller t)) \<and>
         aggregates_consistent (snd (removeFromFavorites s caller t))"
proof -
  have del: "list_all P (deleteById key docs j)" if "list_all P docs" for P key j
    and docs :: "recipe list"
    using that by (induction docs) auto
  have sv: "aggregates_consistent s'" if "save_recipe isNew now s doc = Inr (d, s')" for isNew doc d s'
    using that assms
    by (auto simp: save_recipe_def Let_def aggregates_consistent_def aggregate_consistent_def
        calculateAverageRating_eq split: if_splits intro!: list_all_replaceById)
  have "aggregates_consistent (snd (createRecipe JSON fresh now s caller b upload))"
    using assms sv
    by (auto simp: createRecipe_def Let_def split: sum.splits option.splits prod.splits)
  moreover have "aggregates_consistent (snd (rateRecipe now s caller t n c))"
    using assms sv
    by (auto simp: rateRecipe_def Let_def split: sum.splits option.splits prod.splits)
  moreover have "aggregates_consistent (snd (deleteRecipe s caller t))"
    using assms del by (auto simp: deleteRecipe_def aggregates_consistent_def split: option.splits)
  moreover have "aggregates_consistent (snd (addToFavorites s caller t))"
    using assms
    by (auto simp: addToFavorites_def save_user_def aggregates_consistent_def split: option.splits)
  moreover have "aggregates_consistent (snd (removeFromFavorites s caller t))"
    using assms
    by (auto simp: removeFromFavorites_def save_user_def aggregates_consistent_def
        split: option.splits)
  ultimately show ?thesis by blast
qed

text \<open>
  C1. The stored \<open>averageRating\<close> is to be the mean of the stored ratings rounded to one
  decimal (0 for none) and \<open>totalRatings\<close> their number, after every write, the update
  included. The update operation breaks this. \<open>updateRecipe\<close> writes with
  \<^verbatim>\<open>findByIdAndUpdate\<close>, which runs no \<^verbatim>\<open>pre('save')\<close> hook, and passes every path of the
  body on. The author of the pasta recipe sends a body with a ratings array of one
  5-star entry: the stored recipe then has one rating, \<open>averageRating = 0\<close> and
  \<open>totalRatings = 0\<close>, where the mean is 5 and the count 1. The same array written by
  \<open>rateRecipe\<close> is stored with \<open>averageRating = 5\<close> and \<open>totalRatings = 1\<close>.
\<close>

theorem updateRecipe_stores_stale_aggregate:
  "aggregates_consistent pasta_store \<and>
   updateRecipe demo_json 2000 pasta_store ann pasta_text
       (no_body\<lparr>b_ratings := Valid [\<lparr>user = bob, rating = 5, comment = []\<rparr>]\<rparr>) None =
     (Inr (Some (toJSON stale_pasta)), pasta_store\<lparr>Recipe_docs := [stale_pasta]\<rparr>) \<and>
   length (ratings stale_pasta) = 1 \<and> spec_mean_rating (ratings stale_pasta) = 5 \<and>
   averageRating stale_pasta = 0 \<and> totalRatings stale_pasta = 0 \<and>
   \<not> aggregate_consistent stale_pasta \<and>
   rateRecipe 2000 pasta_store bob pasta_text (Some 5) None =
     (Inr (toJSON rated_pasta), pasta_store\<lparr>Recipe_docs := [rated_pasta]\<rparr>) \<and>
   aggregate_consistent rated_pasta"
proof -
  have m: "spec_mean_rating [\<lparr>user = u, rating = 5, comment = []\<rparr>] = 5" for u
    by (simp add: spec_mean_rating_def round_to_1_decimal_def floor_numeral_div_rat)
  have "aggregates_consistent pasta_store"
    by (simp add: aggregates_consistent_def aggregate_consistent_def pasta_store_def pasta_def
        spec_mean_rating_def)
  moreover have "updateRecipe demo_json 2000 pasta_store ann pasta_text
       (no_body\<lparr>b_ratings := Valid [\<lparr>user = bob, rating = 5, comment = []\<rparr>]\<rparr>) None =
     (Inr (Some (toJSON stale_pasta)), pasta_store\<lparr>Recipe_docs := [stale_pasta]\<rparr>)"
    by (simp add: updateRecipe_def findById_def pasta_store_def pasta_def
        no_body_def update_parsed_def upd_of_slot_def findByIdAndUpdate_def castable_def
        validate_updates_def update_ok_def map_upd_def valid_ratings_def apply_updates_def
        upd_or_def stale_pasta_def Let_def id_defs)
  moreover have "rateRecipe 2000 pasta_store bob pasta_text (Some 5) None =
     (Inr (toJSON rated_pasta), pasta_store\<lparr>Recipe_docs := [rated_pasta]\<rparr>)"
    by (simp add: rateRecipe_def findById_def pasta_store_def pasta_def
        rating_object_def upsert_rating_def save_recipe_def valid_defs calculateAverageRating_eq
        m rated_pasta_def Let_def no_nutritionalInfo_def id_defs)
  ultimately show ?thesis
    using m
    by (simp add: aggregate_consistent_def stale_pasta_def rated_pasta_def pasta_def)
qed

end
